theory Spec2Isabelle
  imports Complex_Main "HOL-Library.AList"
begin

section \<open>JavaScript values used by the starter kit\<close>

text \<open>
  A JavaScript \<open>number\<close>. The code only tests numbers for truthiness, with \<open>isNaN\<close> and
  against zero, so a finite number is represented by the real it denotes (\<open>-0\<close> is
  \<open>Finite 0\<close>), beside the three values that are not finite.
\<close>

datatype number = NaN | Finite real | PosInfinity | NegInfinity

fun isNaN :: "number \<Rightarrow> bool" where
  "isNaN NaN = True"
| "isNaN _ = False"

text \<open>\<open>ToBoolean\<close> on a number: \<open>NaN\<close>, \<open>0\<close> and \<open>-0\<close> are falsy.\<close>

fun truthy :: "number \<Rightarrow> bool" where
  "truthy NaN = False"
| "truthy (Finite r) = (r \<noteq> 0)"
| "truthy PosInfinity = True"
| "truthy NegInfinity = True"

text \<open>The comparisons \<open>n > 0\<close> and \<open>n <= 0\<close>; both are false on \<open>NaN\<close>.\<close>

fun gt_zero :: "number \<Rightarrow> bool" where
  "gt_zero NaN = False"
| "gt_zero (Finite r) = (0 < r)"
| "gt_zero PosInfinity = True"
| "gt_zero NegInfinity = False"

fun le_zero :: "number \<Rightarrow> bool" where
  "le_zero NaN = False"
| "le_zero (Finite r) = (r \<le> 0)"
| "le_zero PosInfinity = False"
| "le_zero NegInfinity = True"

text \<open>
  The value of a property of the object that \<open>getRequestHeaders\<close> returns; the code tests
  it with \<open>typeof value === 'string'\<close>.
\<close>

datatype js_value = JString string | JNumber number | JBoolean bool | JNull | JUndefined

text \<open>
  A thrown value: the \<open>message\<close> of the error and, for an error of the HTTP client, the
  \<open>response\<close> it carries (status and data).
\<close>

record js_error =
  error_message :: string
  error_response :: "(number \<times> string) option"

text \<open>\<open>new Error(msg)\<close>\<close>

definition Error :: "string \<Rightarrow> js_error" where
  "Error msg = \<lparr>error_message = msg, error_response = None\<rparr>"

text \<open>\<open>content || ""\<close> for a \<open>content\<close> of type \<open>string | null\<close>.\<close>

definition or_empty :: "string option \<Rightarrow> string" where
  "or_empty content =
     (case content of None \<Rightarrow> '''' | Some s \<Rightarrow> (if s = '''' then '''' else s))"

section \<open>The chat completion exchange\<close>

record chat_message =
  msg_role :: string
  msg_content :: string

record chat_request =
  req_messages :: "chat_message list"
  req_model :: string

record completion_message =
  message_content :: "string option"

record choice =
  message :: completion_message

record completion =
  completion_id :: string
  choices :: "choice list"

text \<open>
  \<open>new OpenAI({baseURL, apiKey}).chat.completions.create(body, {headers})\<close>: the answer of
  the inference endpoint as a function of the base URL, the API key, the request body and
  the request headers. A JavaScript object of string properties is the list of its
  entries in insertion order.
\<close>

type_synonym openai =
  "string \<Rightarrow> string \<Rightarrow> chat_request \<Rightarrow> (string \<times> string) list \<Rightarrow> js_error + completion"

section \<open>The broker\<close>

text \<open>
  The operations of \<open>ZGComputeNetworkBroker\<close> that the modelled functions call
  (\<open>broker.ledger.depositFund\<close>, \<open>broker.ledger.getLedger\<close> and four operations of
  \<open>broker.inference\<close>). The SDK is not part of the repository: each operation is a
  parameter, returning its value or the error it throws. The ledger structure is opaque
  to the code, which only prints it.
\<close>

type_synonym ledger = string

record broker =
  depositFund :: "number \<Rightarrow> js_error + unit"
  getLedger :: "js_error + ledger"
  getServiceMetadata :: "string \<Rightarrow> js_error + string \<times> string"
  getRequestHeaders :: "string \<Rightarrow> string \<Rightarrow> js_error + (string \<times> js_value) list"
  processResponse :: "string \<Rightarrow> string \<Rightarrow> string \<Rightarrow> js_error + bool"
  settleFee :: "string \<Rightarrow> number \<Rightarrow> js_error + unit"

section \<open>What a run does: calls and console lines\<close>

datatype call =
    DepositFund number
  | GetLedger
  | GetServiceMetadata string
  | GetRequestHeaders string string
  | ChatCompletionsCreate string string chat_request "(string \<times> string) list"
  | ProcessResponse string string string
  | SettleFee string number

text \<open>
  A console line is the list of the pieces printed on it: text, the numbers and the
  \<open>string | null\<close> values interpolated or passed as arguments, and printed objects.
\<close>

datatype piece = Str string | Num number | Val "string option" | Obj string

datatype event = Call call | ConsoleLog "piece list" | ConsoleError "piece list"

text \<open>The arguments of the calls of one operation in a run, in order.\<close>

fun settleFee_calls :: "event list \<Rightarrow> (string \<times> number) list" where
  "settleFee_calls [] = []"
| "settleFee_calls (Call (SettleFee p f) # es) = (p, f) # settleFee_calls es"
| "settleFee_calls (_ # es) = settleFee_calls es"

fun processResponse_calls :: "event list \<Rightarrow> (string \<times> string \<times> string) list" where
  "processResponse_calls [] = []"
| "processResponse_calls (Call (ProcessResponse p c i) # es) = (p, c, i) # processResponse_calls es"
| "processResponse_calls (_ # es) = processResponse_calls es"

fun depositFund_calls :: "event list \<Rightarrow> number list" where
  "depositFund_calls [] = []"
| "depositFund_calls (Call (DepositFund a) # es) = a # depositFund_calls es"
| "depositFund_calls (_ # es) = depositFund_calls es"

fun create_calls ::
  "event list \<Rightarrow> (string \<times> string \<times> chat_request \<times> (string \<times> string) list) list" where
  "create_calls [] = []"
| "create_calls (Call (ChatCompletionsCreate u k r h) # es) = (u, k, r, h) # create_calls es"
| "create_calls (_ # es) = create_calls es"

section \<open>Code shared by the two entry points\<close>

text \<open>
  \<^verbatim>\<open>
  const requestHeaders: Record<string, string> = {};
  Object.entries(headers).forEach(([key, value]) => {
    if (typeof value === 'string') { requestHeaders[key] = value; }
  });
  \<close>
  \<open>requestHeaders\<close> is a plain object, so the assignment \<open>requestHeaders[key] = value\<close>
  with the key \<open>__proto__\<close> runs the setter of \<open>Object.prototype\<close>, which ignores a
  string: no property is created and that header is dropped. Every other key becomes an
  own property, new or overwritten in place.
\<close>

definition requestHeaders_of :: "(string \<times> js_value) list \<Rightarrow> (string \<times> string) list" where
  "requestHeaders_of headers =
     fold (\<lambda>(key, v) requestHeaders.
             (case v of
                JString s \<Rightarrow>
                  (if key = ''__proto__'' then requestHeaders
                   else AList.update key s requestHeaders)
              | _ \<Rightarrow> requestHeaders))
          headers []"

text \<open>\<open>{ messages: [{ role: "user", content: query }], model }\<close>\<close>

definition request_body :: "string \<Rightarrow> string \<Rightarrow> chat_request" where
  "request_body query model =
     \<lparr>req_messages = [\<lparr>msg_role = ''user'', msg_content = query\<rparr>], req_model = model\<rparr>"

text \<open>
  The message of the \<open>TypeError\<close> that Node raises for \<open>completion.choices[0].message\<close>
  when \<open>choices\<close> is empty (\<open>choices[0]\<close> is \<open>undefined\<close>).
\<close>

definition undefined_message_TypeError :: js_error where
  "undefined_message_TypeError =
     Error (''Cannot read properties of undefined (reading '' @ [CHR 0x27] @ ''message''
            @ [CHR 0x27] @ '')'')"

section \<open>The service class \<open>BrokerService\<close>\<close>

text \<open>
  The fields of the class, read once the promise started by the constructor has settled:
  \<open>wallet\<close> (its address) and \<open>broker\<close> are \<open>null\<close> until \<open>initialize\<close> sets them, and
  \<open>initPromise\<close> holds the outcome of \<open>initialize\<close>, which rethrows what it catches.
\<close>

record BrokerService =
  wallet :: "string option"
  broker :: "broker option"
  initialized :: bool
  initPromise :: "(js_error + unit) option"

text \<open>
  \<^verbatim>\<open>
  if (!this.initialized && this.initPromise) { await this.initPromise; }
  if (!this.broker || !this.wallet) {
    throw new Error("Broker service not properly initialized");
  }
  \<close>
  The value returned on success is \<open>this.broker!\<close>, which the callers use next.
\<close>

definition ensureInitialized :: "BrokerService \<Rightarrow> js_error + broker" where
  "ensureInitialized this =
     (case (if \<not> initialized this then initPromise this else None) of
        Some (Inl e) \<Rightarrow> Inl e
      | _ \<Rightarrow>
          (case broker this of
             None \<Rightarrow> Inl (Error ''Broker service not properly initialized'')
           | Some b \<Rightarrow>
               (case wallet this of
                  None \<Rightarrow> Inl (Error ''Broker service not properly initialized'')
                | Some w \<Rightarrow> Inr b)))"

text \<open>\<open>BrokerService.depositFunds(amount)\<close>: the result or the error thrown, and the calls made.\<close>

definition BrokerService_depositFunds ::
  "BrokerService \<Rightarrow> number \<Rightarrow> (js_error + string) \<times> event list" where
  "BrokerService_depositFunds this amount =
     (case ensureInitialized this of
        Inl e \<Rightarrow> (Inl e, [])
      | Inr b \<Rightarrow>
          (case depositFund b amount of
             Inr _ \<Rightarrow> (Inr ''Deposit successful'', [Call (DepositFund amount)])
           | Inl error \<Rightarrow>
               (Inl (Error (''Failed to deposit funds: '' @ error_message error)),
                [Call (DepositFund amount)])))"

text \<open>\<open>BrokerService.settleFee(providerAddress, fee)\<close>\<close>

definition BrokerService_settleFee ::
  "BrokerService \<Rightarrow> string \<Rightarrow> number \<Rightarrow> (js_error + string) \<times> event list" where
  "BrokerService_settleFee this providerAddress fee =
     (case ensureInitialized this of
        Inl e \<Rightarrow> (Inl e, [])
      | Inr b \<Rightarrow>
          (case settleFee b providerAddress fee of
             Inr _ \<Rightarrow> (Inr ''Fee settled successfully'', [Call (SettleFee providerAddress fee)])
           | Inl error \<Rightarrow>
               (Inl (Error (''Failed to settle fee: '' @ error_message error)),
                [Call (SettleFee providerAddress fee)])))"

text \<open>
  The object that \<open>sendQuery\<close> returns: \<open>{ content, metadata }\<close>, where \<open>metadata\<close> is
  \<open>{ model, isValid, provider }\<close> after \<open>processResponse\<close> returned and
  \<open>{ model, usedFallbackFee, fallbackFeeAmount, provider }\<close> after the fallback fee was
  settled.
\<close>

datatype metadata =
    ProcessedMetadata string bool string
  | FallbackMetadata string bool number string

record query_result =
  result_content :: "string option"
  result_metadata :: metadata

text \<open>
  \<open>BrokerService.sendQuery\<close>, in the three parts its comments name. First, up to the
  answer of the endpoint (\<open>Get the service metadata\<close> to \<open>Make the API request\<close>): the
  model and the completion, or the error thrown, and the calls made.
\<close>

definition BrokerService_request ::
  "broker \<Rightarrow> openai \<Rightarrow> string \<Rightarrow> string \<Rightarrow> (js_error + string \<times> completion) \<times> event list" where
  "BrokerService_request b openai providerAddress query =
     (case getServiceMetadata b providerAddress of
        Inl e \<Rightarrow> (Inl e, [Call (GetServiceMetadata providerAddress)])
      | Inr (endpoint, model) \<Rightarrow>
          (case getRequestHeaders b providerAddress query of
             Inl e \<Rightarrow>
               (Inl e,
                [Call (GetServiceMetadata providerAddress),
                 Call (GetRequestHeaders providerAddress query)])
           | Inr headers \<Rightarrow>
               (let requestHeaders = requestHeaders_of headers;
                    calls =
                      [Call (GetServiceMetadata providerAddress),
                       Call (GetRequestHeaders providerAddress query),
                       Call (ChatCompletionsCreate endpoint '''' (request_body query model)
                               requestHeaders)]
                in (case openai endpoint '''' (request_body query model) requestHeaders of
                      Inl e \<Rightarrow> (Inl e, calls)
                    | Inr completion \<Rightarrow> (Inr (model, completion), calls)))))"

text \<open>
  Second, \<open>Process payment\<close>: the inner \<open>try\<close> with its \<open>catch\<close>, for the \<open>content\<close> and the
  \<open>chatId\<close> read from the completion.
\<close>

definition BrokerService_payment ::
  "BrokerService \<Rightarrow> broker \<Rightarrow> string \<Rightarrow> string \<Rightarrow> string option \<Rightarrow> string \<Rightarrow> number option
     \<Rightarrow> (js_error + query_result) \<times> event list" where
  "BrokerService_payment this b providerAddress model content chatId fallbackFee =
     (case processResponse b providerAddress (or_empty content) chatId of
        Inr isValid \<Rightarrow>
          (Inr \<lparr>result_content = content,
                result_metadata = ProcessedMetadata model isValid providerAddress\<rparr>,
           [Call (ProcessResponse providerAddress (or_empty content) chatId)])
      | Inl error \<Rightarrow>
          (case fallbackFee of
             None \<Rightarrow>
               (Inl (Error (''Payment processing failed: '' @ error_message error)),
                [Call (ProcessResponse providerAddress (or_empty content) chatId)])
           | Some fee \<Rightarrow>
               (if truthy fee \<and> gt_zero fee then
                  (case BrokerService_settleFee this providerAddress fee of
                     (Inl e, calls) \<Rightarrow>
                       (Inl e,
                        Call (ProcessResponse providerAddress (or_empty content) chatId) # calls)
                   | (Inr _, calls) \<Rightarrow>
                       (Inr \<lparr>result_content = content,
                             result_metadata = FallbackMetadata model True fee providerAddress\<rparr>,
                        Call (ProcessResponse providerAddress (or_empty content) chatId) # calls))
                else
                  (Inl (Error (''Payment processing failed: '' @ error_message error)),
                   [Call (ProcessResponse providerAddress (or_empty content) chatId)]))))"

text \<open>
  The body of the outer \<open>try\<close>: the request, \<open>Process response\<close> (reading
  \<open>completion.choices[0].message.content\<close> throws when \<open>choices\<close> is empty), the payment.
\<close>

definition BrokerService_sendQuery_try ::
  "BrokerService \<Rightarrow> broker \<Rightarrow> openai \<Rightarrow> string \<Rightarrow> string \<Rightarrow> number option
     \<Rightarrow> (js_error + query_result) \<times> event list" where
  "BrokerService_sendQuery_try this b openai providerAddress query fallbackFee =
     (case BrokerService_request b openai providerAddress query of
        (Inl e, calls) \<Rightarrow> (Inl e, calls)
      | (Inr (model, completion), calls) \<Rightarrow>
          (case choices completion of
             [] \<Rightarrow> (Inl undefined_message_TypeError, calls)
           | c # _ \<Rightarrow>
               (case BrokerService_payment this b providerAddress model
                       (message_content (message c)) (completion_id completion) fallbackFee of
                  (r, calls') \<Rightarrow> (r, calls @ calls'))))"

text \<open>
  \<open>BrokerService.sendQuery(providerAddress, query, fallbackFee)\<close>: \<open>ensureInitialized\<close>
  is awaited outside the \<open>try\<close>; everything thrown inside it is rethrown as
  \<open>Query failed: ...\<close>.
\<close>

definition BrokerService_sendQuery ::
  "BrokerService \<Rightarrow> openai \<Rightarrow> string \<Rightarrow> string \<Rightarrow> number option
     \<Rightarrow> (js_error + query_result) \<times> event list" where
  "BrokerService_sendQuery this openai providerAddress query fallbackFee =
     (case ensureInitialized this of
        Inl e \<Rightarrow> (Inl e, [])
      | Inr b \<Rightarrow>
          (case BrokerService_sendQuery_try this b openai providerAddress query fallbackFee of
             (Inl error, calls) \<Rightarrow>
               (Inl (Error (''Query failed: '' @ error_message error)), calls)
           | (Inr r, calls) \<Rightarrow> (Inr r, calls)))"

text \<open>
  The spec's \<open>QueryResult\<close> has a field \<open>paymentOutcome\<close>; the object of the code has none.
  The outcome is read off the shape of the metadata: the metadata with \<open>isValid\<close> is the
  outcome \<open>Verified\<close>, the metadata with \<open>usedFallbackFee\<close> is \<open>FallbackSettled\<close>. No
  object that the code builds reads as \<open>Unsettled\<close>.
\<close>

datatype payment_outcome = Verified | FallbackSettled | Unsettled

fun paymentOutcome :: "query_result \<Rightarrow> payment_outcome" where
  "paymentOutcome r =
     (case result_metadata r of
        ProcessedMetadata _ _ _ \<Rightarrow> Verified
      | FallbackMetadata _ _ _ _ \<Rightarrow> FallbackSettled)"

text \<open>
  The payment of a received response is settled when \<open>processResponse\<close> returns, or when
  it throws, a fallback fee was given (\<open>fallbackFee && fallbackFee > 0\<close>) and \<open>settleFee\<close>
  returns.
\<close>

definition payment_settled ::
  "broker \<Rightarrow> string \<Rightarrow> string option \<Rightarrow> string \<Rightarrow> number option \<Rightarrow> bool" where
  "payment_settled b providerAddress content chatId fallbackFee =
     (case processResponse b providerAddress (or_empty content) chatId of
        Inr isValid \<Rightarrow> True
      | Inl error \<Rightarrow>
          (case fallbackFee of
             None \<Rightarrow> False
           | Some fee \<Rightarrow>
               truthy fee \<and> gt_zero fee \<and>
               (case settleFee b providerAddress fee of Inr _ \<Rightarrow> True | Inl _ \<Rightarrow> False)))"

section \<open>The command-line program\<close>

text \<open>
  The functions of the command-line program return nothing and catch what they throw:
  what a run does is the list of its broker calls and console lines, in order. The
  global \<open>broker\<close> is a parameter.
\<close>

definition cli_checkBalance :: "broker \<Rightarrow> event list" where
  "cli_checkBalance b =
     (case getLedger b of
        Inr balance \<Rightarrow> [Call GetLedger, ConsoleLog [Str ''Current balance:'', Obj balance]]
      | Inl error \<Rightarrow>
          [Call GetLedger,
           ConsoleError [Str ''Error checking balance:'', Str (error_message error)]])"

definition cli_depositFunds :: "broker \<Rightarrow> number \<Rightarrow> event list" where
  "cli_depositFunds b amount =
     ConsoleLog [Str ''Depositing '', Num amount, Str '' ETH...''] #
     Call (DepositFund amount) #
     (case depositFund b amount of
        Inr _ \<Rightarrow> ConsoleLog [Str ''Deposit successful.''] # cli_checkBalance b
      | Inl error \<Rightarrow>
          [ConsoleError [Str ''Error depositing funds:'', Str (error_message error)]])"

definition cli_settleFeeManually :: "broker \<Rightarrow> string \<Rightarrow> number \<Rightarrow> event list" where
  "cli_settleFeeManually b providerAddress fee =
     ConsoleLog [Str ''Settling fee of '', Num fee,
                 Str ('' for provider '' @ providerAddress @ ''...'')] #
     Call (SettleFee providerAddress fee) #
     (case settleFee b providerAddress fee of
        Inr _ \<Rightarrow> [ConsoleLog [Str ''Fee settled successfully'']]
      | Inl error \<Rightarrow> [ConsoleError [Str ''Error settling fee:'', Str (error_message error)]])"

text \<open>
  \<open>sendQuery\<close> of the command-line program, in the same three parts as the method of
  the service. First, up to the answer of the endpoint.
\<close>

definition cli_request ::
  "broker \<Rightarrow> openai \<Rightarrow> string \<Rightarrow> string \<Rightarrow> (js_error + string \<times> completion) \<times> event list" where
  "cli_request b openai providerAddress query =
     (let events1 =
            [ConsoleLog [Str (''Sending query to provider '' @ providerAddress @ ''...'')],
             ConsoleLog [Str ''Getting service metadata...''],
             Call (GetServiceMetadata providerAddress)]
      in (case getServiceMetadata b providerAddress of
            Inl e \<Rightarrow> (Inl e, events1)
          | Inr (endpoint, model) \<Rightarrow>
              (let events2 = events1 @
                     [ConsoleLog [Str ''Endpoint:'', Str endpoint],
                      ConsoleLog [Str ''Model:'', Str model],
                      ConsoleLog [Str ''Getting request headers...''],
                      Call (GetRequestHeaders providerAddress query)]
               in (case getRequestHeaders b providerAddress query of
                     Inl e \<Rightarrow> (Inl e, events2)
                   | Inr headers \<Rightarrow>
                       (let requestHeaders = requestHeaders_of headers;
                            events3 = events2 @
                              [ConsoleLog [Str ''Request headers obtained''],
                               ConsoleLog [Str ''\<newline>Sending request to AI service...''],
                               Call (ChatCompletionsCreate endpoint '''' (request_body query model)
                                       requestHeaders)]
                        in (case openai endpoint '''' (request_body query model) requestHeaders of
                              Inl e \<Rightarrow> (Inl e, events3)
                            | Inr completion \<Rightarrow> (Inr (model, completion), events3)))))))"

text \<open>
  Second, \<open>Process payment\<close>: the inner \<open>try\<close> with its \<open>catch\<close>. Nothing leaves it:
  \<open>settleFeeManually\<close> catches the error of \<open>settleFee\<close>.
\<close>

definition cli_payment ::
  "broker \<Rightarrow> string \<Rightarrow> string option \<Rightarrow> string \<Rightarrow> number option \<Rightarrow> event list" where
  "cli_payment b providerAddress content chatId fallbackFee =
     ConsoleLog [Str ''\<newline>Processing response payment...''] #
     Call (ProcessResponse providerAddress (or_empty content) chatId) #
     (case processResponse b providerAddress (or_empty content) chatId of
        Inr isValid \<Rightarrow>
          [ConsoleLog [Str (''Response validity: '' @ (if isValid then ''Valid'' else ''Invalid''))]]
      | Inl error \<Rightarrow>
          ConsoleLog [Str ''Error processing response:'', Str (error_message error)] #
          (case fallbackFee of
             None \<Rightarrow>
               [ConsoleLog
                  [Str ''No fallback fee specified. Payment may not have been processed.'']]
           | Some fee \<Rightarrow>
               (if truthy fee \<and> gt_zero fee then
                  ConsoleLog [Str ''Using fallback fee of '', Num fee, Str ''...''] #
                  cli_settleFeeManually b providerAddress fee
                else
                  [ConsoleLog
                     [Str ''No fallback fee specified. Payment may not have been processed.'']])))"

text \<open>
  The body of the outer \<open>try\<close>: the error thrown, if any, and the events. The content is
  printed before the payment is processed.
\<close>

definition cli_sendQuery_try ::
  "broker \<Rightarrow> openai \<Rightarrow> string \<Rightarrow> string \<Rightarrow> number option \<Rightarrow> js_error option \<times> event list" where
  "cli_sendQuery_try b openai providerAddress query fallbackFee =
     (case cli_request b openai providerAddress query of
        (Inl e, events) \<Rightarrow> (Some e, events)
      | (Inr (model, completion), events) \<Rightarrow>
          (case choices completion of
             [] \<Rightarrow> (Some undefined_message_TypeError, events)
           | c # _ \<Rightarrow>
               (None,
                events @
                [ConsoleLog [Str ''\<newline>Response from AI:''],
                 ConsoleLog [Val (message_content (message c))]] @
                cli_payment b providerAddress (message_content (message c))
                  (completion_id completion) fallbackFee)))"

text \<open>\<open>sendQuery(providerAddress, query, fallbackFee)\<close> with its outer \<open>catch\<close>.\<close>

definition cli_sendQuery ::
  "broker \<Rightarrow> openai \<Rightarrow> string \<Rightarrow> string \<Rightarrow> number option \<Rightarrow> event list" where
  "cli_sendQuery b openai providerAddress query fallbackFee =
     (case cli_sendQuery_try b openai providerAddress query fallbackFee of
        (None, events) \<Rightarrow> events
      | (Some error, events) \<Rightarrow>
          events @
          ConsoleError [Str ''Error sending query:'', Str (error_message error)] #
          (case error_response error of
             None \<Rightarrow> []
           | Some (status, data) \<Rightarrow>
               [ConsoleError [Str ''API Error status:'', Num status],
                ConsoleError [Str ''API Error data:'', Obj data]]))"

text \<open>
  The branch \<open>Deposit fee\<close> of \<open>main\<close>, entered when the flag \<open>depositFee\<close> is set, for
  \<open>amount = parseFloat(flags['depositFee'])\<close>:
  \<^verbatim>\<open>
  if (!isNaN(amount) && amount > 0) { await depositFunds(amount); }
  else { console.error("Invalid deposit amount"); }
  \<close>
\<close>

definition main_depositFee :: "broker \<Rightarrow> number \<Rightarrow> event list" where
  "main_depositFee b amount =
     (if \<not> isNaN amount \<and> gt_zero amount then cli_depositFunds b amount
      else [ConsoleError [Str ''Invalid deposit amount'']])"

section \<open>Concrete scenarios\<close>

text \<open>
  A broker whose automatic settlement and manual settlement have the given outcomes, a
  service initialized with a broker, and an endpoint that answers every request with the
  given completion.
\<close>

definition scenario_headers :: "(string \<times> js_value) list" where
  "scenario_headers = [(''Address'', JString ''0xC11''), (''Nonce'', JString ''7'')]"

definition scenario_broker :: "js_error + bool \<Rightarrow> js_error + unit \<Rightarrow> broker" where
  "scenario_broker verification settlement =
     \<lparr>depositFund = (\<lambda>amount. Inr ()),
      getLedger = Inr ''ledger'',
      getServiceMetadata = (\<lambda>providerAddress. Inr (''https://provider.example/v1'', ''llama-3'')),
      getRequestHeaders = (\<lambda>providerAddress query. Inr scenario_headers),
      processResponse = (\<lambda>providerAddress content chatId. verification),
      settleFee = (\<lambda>providerAddress fee. settlement)\<rparr>"

definition service_of :: "broker \<Rightarrow> BrokerService" where
  "service_of b =
     \<lparr>wallet = Some ''0xC11'', broker = Some b, initialized = True, initPromise = Some (Inr ())\<rparr>"

definition answer :: "string \<Rightarrow> string option \<Rightarrow> completion" where
  "answer chatId content =
     \<lparr>completion_id = chatId, choices = [\<lparr>message = \<lparr>message_content = content\<rparr>\<rparr>]\<rparr>"

definition endpoint_answering :: "completion \<Rightarrow> openai" where
  "endpoint_answering completion = (\<lambda>baseURL apiKey body headers. Inr completion)"

section \<open>Auxiliary facts\<close>

lemma scenario_initialized: "ensureInitialized (service_of b) = Inr b"
  by (simp add: ensureInitialized_def service_of_def)

lemma scenario_metadata:
  "getServiceMetadata (scenario_broker v s) p = Inr (''https://provider.example/v1'', ''llama-3'')"
  by (simp add: scenario_broker_def)

lemma scenario_headers_issued:
  "getRequestHeaders (scenario_broker v s) p q = Inr scenario_headers"
  by (simp add: scenario_broker_def)

lemma scenario_answer: "endpoint_answering a baseURL apiKey body headers = Inr a"
  by (simp add: endpoint_answering_def)

lemma scenario_choices:
  "choices (answer chatId content) = \<lparr>message = \<lparr>message_content = content\<rparr>\<rparr> # []"
  by (simp add: answer_def)

lemma scenario_verification:
  "processResponse (scenario_broker v s) p
     (or_empty (message_content (message \<lparr>message = \<lparr>message_content = content\<rparr>\<rparr>)))
     (completion_id (answer chatId content)) = v"
  by (simp add: scenario_broker_def)

lemma scenario_settlement: "settleFee (scenario_broker v s) p fee = s"
  by (simp add: scenario_broker_def)

lemma error_message_Error [simp]: "error_message (Error msg) = msg"
  by (simp add: Error_def)

lemma error_response_Error [simp]: "error_response (Error msg) = None"
  by (simp add: Error_def)

lemma completion_id_answer [simp]: "completion_id (answer chatId content) = chatId"
  by (simp add: answer_def)

lemma requestHeaders_of_scenario_headers:
  "requestHeaders_of scenario_headers = [(''Address'', ''0xC11''), (''Nonce'', ''7'')]"
  by (simp add: requestHeaders_of_def scenario_headers_def)

lemma update_fresh: "key \<notin> fst ` set al \<Longrightarrow> AList.update key v al = al @ [(key, v)]"
  by (induction al) auto

lemma fold_strings:
  "distinct (map fst acc @ map fst hs) \<Longrightarrow> ''__proto__'' \<notin> fst ` set hs \<Longrightarrow>
   fold (\<lambda>(key, v) requestHeaders.
             (case v of
                JString s \<Rightarrow>
                  (if key = ''__proto__'' then requestHeaders
                   else AList.update key s requestHeaders)
              | _ \<Rightarrow> requestHeaders))
     (map (\<lambda>(k, s). (k, JString s)) hs) acc = acc @ hs"
proof (induction hs arbitrary: acc)
  case Nil
  then show ?case by simp
next
  case (Cons h hs)
  obtain k s where h: "h = (k, s)" by (cases h)
  from Cons.prems have fresh: "k \<notin> fst ` set acc" by (auto simp: h)
  from Cons.prems have named: "k \<noteq> ''__proto__''" by (auto simp: h)
  from Cons.prems have rest: "''__proto__'' \<notin> fst ` set hs" by auto
  from Cons.prems have "distinct (map fst (acc @ [(k, s)]) @ map fst hs)" by (auto simp: h)
  from Cons.IH[OF this rest] show ?case by (simp add: h named update_fresh[OF fresh])
qed

lemma requestHeaders_of_strings:
  "distinct (map fst hs) \<Longrightarrow> ''__proto__'' \<notin> fst ` set hs \<Longrightarrow>
   requestHeaders_of (map (\<lambda>(k, s). (k, JString s)) hs) = hs"
  unfolding requestHeaders_of_def using fold_strings[of "[]" hs] by simp

lemma requestHeaders_of_proto_dropped:
  "requestHeaders_of
     [(''Address'', JString ''0xC11''), (''__proto__'', JString ''x''), (''Nonce'', JString ''7'')]
   = [(''Address'', ''0xC11''), (''Nonce'', ''7'')]"
  by (simp add: requestHeaders_of_def)


lemma gt_zero_truthy: "gt_zero n \<Longrightarrow> truthy n"
  by (cases n) auto

lemma le_zero_not_gt_zero: "le_zero n \<Longrightarrow> \<not> gt_zero n"
  by (cases n) auto

lemma settleFee_calls_append [simp]:
  "settleFee_calls (xs @ ys) = settleFee_calls xs @ settleFee_calls ys"
  by (induction xs rule: settleFee_calls.induct) auto

lemma processResponse_calls_append [simp]:
  "processResponse_calls (xs @ ys) = processResponse_calls xs @ processResponse_calls ys"
  by (induction xs rule: processResponse_calls.induct) auto

lemma create_calls_append [simp]:
  "create_calls (xs @ ys) = create_calls xs @ create_calls ys"
  by (induction xs rule: create_calls.induct) auto

lemma BrokerService_request_received:
  assumes "getServiceMetadata b p = Inr (endpoint, model)"
    and "getRequestHeaders b p q = Inr headers"
    and "openai endpoint '''' (request_body q model) (requestHeaders_of headers) = Inr completion"
  shows "BrokerService_request b openai p q =
           (Inr (model, completion),
            [Call (GetServiceMetadata p), Call (GetRequestHeaders p q),
             Call (ChatCompletionsCreate endpoint '''' (request_body q model)
                     (requestHeaders_of headers))])"
  using assms by (simp add: BrokerService_request_def)

lemma BrokerService_sendQuery_received:
  assumes "ensureInitialized this = Inr b"
    and "BrokerService_request b openai p q = (Inr (model, completion), calls)"
    and "choices completion = c # cs"
  shows "BrokerService_sendQuery this openai p q fallbackFee =
           (case BrokerService_payment this b p model (message_content (message c))
                   (completion_id completion) fallbackFee of
              (Inl error, calls') \<Rightarrow>
                (Inl (Error (''Query failed: '' @ error_message error)), calls @ calls')
            | (Inr r, calls') \<Rightarrow> (Inr r, calls @ calls'))"
  using assms
  by (simp add: BrokerService_sendQuery_def BrokerService_sendQuery_try_def
      split: prod.splits sum.splits)

lemma BrokerService_payment_processed:
  assumes "processResponse b p (or_empty content) chatId = Inr isValid"
  shows "BrokerService_payment this b p model content chatId fallbackFee =
           (Inr \<lparr>result_content = content, result_metadata = ProcessedMetadata model isValid p\<rparr>,
            [Call (ProcessResponse p (or_empty content) chatId)])"
  using assms by (simp add: BrokerService_payment_def)

lemma BrokerService_payment_fallback:
  assumes "processResponse b p (or_empty content) chatId = Inl error"
    and "gt_zero fee"
    and "ensureInitialized this = Inr b"
  shows "BrokerService_payment this b p model content chatId (Some fee) =
           (case settleFee b p fee of
              Inr u \<Rightarrow>
                (Inr \<lparr>result_content = content,
                      result_metadata = FallbackMetadata model True fee p\<rparr>,
                 [Call (ProcessResponse p (or_empty content) chatId), Call (SettleFee p fee)])
            | Inl e \<Rightarrow>
                (Inl (Error (''Failed to settle fee: '' @ error_message e)),
                 [Call (ProcessResponse p (or_empty content) chatId), Call (SettleFee p fee)]))"
  using assms
  by (simp add: BrokerService_payment_def BrokerService_settleFee_def gt_zero_truthy
      split: sum.splits)

lemma BrokerService_payment_no_fallback:
  assumes "processResponse b p (or_empty content) chatId = Inl error"
    and "fallbackFee = None \<or> (\<exists>fee. fallbackFee = Some fee \<and> \<not> (truthy fee \<and> gt_zero fee))"
  shows "BrokerService_payment this b p model content chatId fallbackFee =
           (Inl (Error (''Payment processing failed: '' @ error_message error)),
            [Call (ProcessResponse p (or_empty content) chatId)])"
  using assms by (auto simp add: BrokerService_payment_def)

lemma cli_request_received:
  assumes "getServiceMetadata b p = Inr (endpoint, model)"
    and "getRequestHeaders b p q = Inr headers"
    and "openai endpoint '''' (request_body q model) (requestHeaders_of headers) = Inr completion"
  shows "fst (cli_request b openai p q) = Inr (model, completion)"
    and "create_calls (snd (cli_request b openai p q)) =
           [(endpoint, '''', request_body q model, requestHeaders_of headers)]"
    and "processResponse_calls (snd (cli_request b openai p q)) = []"
    and "settleFee_calls (snd (cli_request b openai p q)) = []"
  using assms by (simp_all add: cli_request_def)

lemma cli_sendQuery_received:
  assumes "fst (cli_request b openai p q) = Inr (model, completion)"
    and "choices completion = c # cs"
  shows "cli_sendQuery b openai p q fallbackFee =
           snd (cli_request b openai p q) @
           [ConsoleLog [Str ''\<newline>Response from AI:''],
            ConsoleLog [Val (message_content (message c))]] @
           cli_payment b p (message_content (message c)) (completion_id completion) fallbackFee"
  using assms
  by (cases "cli_request b openai p q")
     (simp add: cli_sendQuery_def cli_sendQuery_try_def)


lemma BrokerService_request_calls:
  assumes "getServiceMetadata b p = Inr (endpoint, model)"
    and "getRequestHeaders b p q = Inr headers"
  shows "create_calls (snd (BrokerService_request b openai p q)) =
           [(endpoint, '''', request_body q model, requestHeaders_of headers)]"
  using assms by (simp add: BrokerService_request_def Let_def split: sum.splits)

lemma cli_request_calls:
  assumes "getServiceMetadata b p = Inr (endpoint, model)"
    and "getRequestHeaders b p q = Inr headers"
  shows "create_calls (snd (cli_request b openai p q)) =
           [(endpoint, '''', request_body q model, requestHeaders_of headers)]"
  using assms by (simp add: cli_request_def Let_def split: sum.splits)

lemma BrokerService_settleFee_calls:
  "BrokerService_settleFee this p fee = (r, calls) \<Longrightarrow> create_calls calls = []"
  by (auto simp add: BrokerService_settleFee_def split: sum.splits)

lemma BrokerService_payment_create_calls:
  "BrokerService_payment this b p model content chatId fallbackFee = (r, calls) \<Longrightarrow>
   create_calls calls = []"
  by (auto simp add: BrokerService_payment_def
      split: sum.splits option.splits prod.splits if_splits
      dest: BrokerService_settleFee_calls)

lemma BrokerService_sendQuery_create_calls:
  assumes "ensureInitialized this = Inr b"
  shows "create_calls (snd (BrokerService_sendQuery this openai p q fallbackFee)) =
           create_calls (snd (BrokerService_request b openai p q))"
  using assms
  by (auto simp add: BrokerService_sendQuery_def BrokerService_sendQuery_try_def
      split: sum.splits prod.splits list.splits dest: BrokerService_payment_create_calls)

lemma cli_payment_create_calls:
  "create_calls (cli_payment b p content chatId fallbackFee) = []"
  by (simp add: cli_payment_def cli_settleFeeManually_def split: sum.splits option.splits)

lemma cli_sendQuery_create_calls:
  "create_calls (cli_sendQuery b openai p q fallbackFee) =
     create_calls (snd (cli_request b openai p q))"
  by (auto simp add: cli_sendQuery_def cli_sendQuery_try_def cli_payment_create_calls
      split: sum.splits prod.splits list.splits option.splits)


lemma cli_payment_processed:
  assumes "processResponse b p (or_empty content) chatId = Inr isValid"
  shows "cli_payment b p content chatId fallbackFee =
           [ConsoleLog [Str ''\<newline>Processing response payment...''],
            Call (ProcessResponse p (or_empty content) chatId),
            ConsoleLog [Str (''Response validity: '' @ (if isValid then ''Valid'' else ''Invalid''))]]"
  using assms by (simp add: cli_payment_def)

lemma cli_payment_fallback:
  assumes "processResponse b p (or_empty content) chatId = Inl error"
    and "gt_zero fee"
  shows "cli_payment b p content chatId (Some fee) =
           ConsoleLog [Str ''\<newline>Processing response payment...''] #
           Call (ProcessResponse p (or_empty content) chatId) #
           ConsoleLog [Str ''Error processing response:'', Str (error_message error)] #
           ConsoleLog [Str ''Using fallback fee of '', Num fee, Str ''...''] #
           cli_settleFeeManually b p fee"
  using assms by (simp add: cli_payment_def gt_zero_truthy)

lemma cli_payment_no_fallback:
  assumes "processResponse b p (or_empty content) chatId = Inl error"
    and "fallbackFee = None \<or> (\<exists>fee. fallbackFee = Some fee \<and> \<not> (truthy fee \<and> gt_zero fee))"
  shows "cli_payment b p content chatId fallbackFee =
           [ConsoleLog [Str ''\<newline>Processing response payment...''],
            Call (ProcessResponse p (or_empty content) chatId),
            ConsoleLog [Str ''Error processing response:'', Str (error_message error)],
            ConsoleLog [Str ''No fallback fee specified. Payment may not have been processed.'']]"
  using assms by (auto simp add: cli_payment_def)

lemma cli_settleFeeManually_calls:
  "settleFee_calls (cli_settleFeeManually b p fee) = [(p, fee)]"
  "processResponse_calls (cli_settleFeeManually b p fee) = []"
  by (simp_all add: cli_settleFeeManually_def split: sum.splits)

lemma BrokerService_settleFee_no_verification:
  "BrokerService_settleFee this p fee = (r, calls) \<Longrightarrow> processResponse_calls calls = []"
  by (auto simp add: BrokerService_settleFee_def split: sum.splits)

lemma BrokerService_payment_verification:
  "BrokerService_payment this b p model content chatId fallbackFee = (r, calls) \<Longrightarrow>
   processResponse_calls calls = [(p, or_empty content, chatId)]"
  by (auto simp add: BrokerService_payment_def
      split: sum.splits option.splits prod.splits if_splits
      dest: BrokerService_settleFee_no_verification)

lemma BrokerService_payment_content:
  "BrokerService_payment this b p model content chatId fallbackFee = (Inr r, calls) \<Longrightarrow>
   result_content r = content"
  by (auto simp add: BrokerService_payment_def
      split: sum.splits option.splits prod.splits if_splits)

lemma cli_payment_verification:
  "processResponse_calls (cli_payment b p content chatId fallbackFee)
     = [(p, or_empty content, chatId)]"
  by (simp add: cli_payment_def cli_settleFeeManually_def split: sum.splits option.splits)

lemma received_verification_calls:
  assumes "ensureInitialized this = Inr b"
    and "getServiceMetadata b p = Inr (endpoint, model)"
    and "getRequestHeaders b p q = Inr headers"
    and "openai endpoint '''' (request_body q model) (requestHeaders_of headers) = Inr completion"
    and "choices completion = c # cs"
  shows "processResponse_calls (snd (BrokerService_sendQuery this openai p q fallbackFee))
           = [(p, or_empty (message_content (message c)), completion_id completion)]"
proof -
  note req = BrokerService_request_received[where openai = openai, OF assms(2,3,4)]
  obtain r calls where pay:
    "BrokerService_payment this b p model (message_content (message c))
       (completion_id completion) fallbackFee = (r, calls)"
    by (cases "BrokerService_payment this b p model (message_content (message c))
       (completion_id completion) fallbackFee")
  show ?thesis
    using BrokerService_payment_verification[OF pay]
    by (simp add: BrokerService_sendQuery_received[OF assms(1) req assms(5)] pay
        split: sum.splits)
qed

lemma received_result_content:
  assumes "ensureInitialized this = Inr b"
    and "getServiceMetadata b p = Inr (endpoint, model)"
    and "getRequestHeaders b p q = Inr headers"
    and "openai endpoint '''' (request_body q model) (requestHeaders_of headers) = Inr completion"
    and "choices completion = c # cs"
    and "fst (BrokerService_sendQuery this openai p q fallbackFee) = Inr r"
  shows "result_content r = message_content (message c)"
proof -
  note req = BrokerService_request_received[where openai = openai, OF assms(2,3,4)]
  obtain r' calls where pay:
    "BrokerService_payment this b p model (message_content (message c))
       (completion_id completion) fallbackFee = (r', calls)"
    by (cases "BrokerService_payment this b p model (message_content (message c))
       (completion_id completion) fallbackFee")
  from assms(6) have "r' = Inr r"
    by (simp add: BrokerService_sendQuery_received[OF assms(1) req assms(5)] pay
        split: sum.splits)
  with pay show ?thesis
    by (simp add: BrokerService_payment_content)
qed

lemma cli_received_verification_calls:
  assumes "getServiceMetadata b p = Inr (endpoint, model)"
    and "getRequestHeaders b p q = Inr headers"
    and "openai endpoint '''' (request_body q model) (requestHeaders_of headers) = Inr completion"
    and "choices completion = c # cs"
  shows "processResponse_calls (cli_sendQuery b openai p q fallbackFee)
           = [(p, or_empty (message_content (message c)), completion_id completion)]"
proof -
  note cli = cli_request_received[where openai = openai, OF assms(1,2,3)]
  show ?thesis
    by (simp add: cli_sendQuery_received[OF cli(1) assms(4)] cli(3) cli_payment_verification)
qed

lemma BrokerService_payment_settled:
  assumes "ensureInitialized this = Inr b"
  shows "case BrokerService_payment this b p model content chatId fallbackFee of
           (Inr r, calls) \<Rightarrow>
             payment_settled b p content chatId fallbackFee \<and> result_content r = content \<and>
             (case result_metadata r of
                ProcessedMetadata m isValid provider \<Rightarrow> m = model \<and> provider = p
              | FallbackMetadata m used fee provider \<Rightarrow>
                  m = model \<and> used \<and> fallbackFee = Some fee \<and> provider = p)
         | (Inl e, calls) \<Rightarrow> \<not> payment_settled b p content chatId fallbackFee"
  using assms
  by (auto simp add: BrokerService_payment_def BrokerService_settleFee_def payment_settled_def
      split: sum.splits option.splits prod.splits if_splits)

section \<open>The claims\<close>

text \<open>
  In the theorems below, the inference response has been received when the service is
  initialized with the broker \<open>b\<close>, the broker returns the metadata and the headers,
  and the endpoint answers the request with a completion; its content can be read when
  the completion has a first choice \<open>c\<close>.
\<close>

subsection \<open>C1\<close>

text \<open>
  C1, as stated, fails for \<open>BrokerService.sendQuery\<close>: when the automatic settlement
  and the fallback settlement both throw, the method throws and the caller gets no
  content, although the response \<open>Hi there\<close> had been received.
\<close>

theorem content_lost_counterexample:
  "BrokerService_sendQuery
     (service_of (scenario_broker (Inl (Error ''stale fee'')) (Inl (Error ''insufficient balance''))))
     (endpoint_answering (answer ''chat-1'' (Some ''Hi there''))) ''0xAAA'' ''Hello, AI!''
     (Some (Finite (1 / 100)))
   = (Inl (Error ''Query failed: Failed to settle fee: insufficient balance''),
      [Call (GetServiceMetadata ''0xAAA''),
       Call (GetRequestHeaders ''0xAAA'' ''Hello, AI!''),
       Call (ChatCompletionsCreate ''https://provider.example/v1'' ''''
               (request_body ''Hello, AI!'' ''llama-3'')
               [(''Address'', ''0xC11''), (''Nonce'', ''7'')]),
       Call (ProcessResponse ''0xAAA'' ''Hi there'' ''chat-1''),
       Call (SettleFee ''0xAAA'' (Finite (1 / 100)))])"
proof -
  let ?b = "scenario_broker (Inl (Error ''stale fee'')) (Inl (Error ''insufficient balance''))"
  let ?a = "answer ''chat-1'' (Some ''Hi there'')"
  have h1: "ensureInitialized (service_of ?b) = Inr ?b"
    by (rule scenario_initialized)
  have req: "BrokerService_request ?b (endpoint_answering ?a) ''0xAAA'' ''Hello, AI!'' =
      (Inr (''llama-3'', ?a),
       [Call (GetServiceMetadata ''0xAAA''), Call (GetRequestHeaders ''0xAAA'' ''Hello, AI!''),
        Call (ChatCompletionsCreate ''https://provider.example/v1'' ''''
                (request_body ''Hello, AI!'' ''llama-3'') (requestHeaders_of scenario_headers))])"
    by (rule BrokerService_request_received
             [where openai = "endpoint_answering ?a",
               OF scenario_metadata scenario_headers_issued scenario_answer])
  have v: "processResponse ?b ''0xAAA'' (or_empty (Some ''Hi there'')) ''chat-1''
             = Inl (Error ''stale fee'')"
    by (simp add: scenario_broker_def)
  have g: "gt_zero (Finite (1 / 100))"
    by simp
  have f: "settleFee ?b ''0xAAA'' (Finite (1 / 100)) = Inl (Error ''insufficient balance'')"
    by (rule scenario_settlement)
  show ?thesis
    by (simp add: BrokerService_sendQuery_received[OF h1 req scenario_choices]
        BrokerService_payment_fallback[OF v g h1] f or_empty_def
        requestHeaders_of_scenario_headers)
qed

text \<open>
  C1 (amended). For every query whose inference response has been received,
  \<open>BrokerService.sendQuery\<close> returns a result exactly when the payment is settled
  (automatically, or by the fallback fee), and the content of that result is the content
  received; when the payment is not settled it throws \<open>Query failed: ...\<close> and returns
  nothing. The command-line program prints the received content before it processes the
  payment, whatever the payment does. A result consists of the content, the model, the
  provider and the validity flag or the fallback fee: the correlation id is not in it.
\<close>

theorem content_returned_when_payment_settled:
  assumes "ensureInitialized this = Inr b"
    and "getServiceMetadata b p = Inr (endpoint, model)"
    and "getRequestHeaders b p q = Inr headers"
    and "openai endpoint '''' (request_body q model) (requestHeaders_of headers) = Inr completion"
    and "choices completion = c # cs"
  shows "(case fst (BrokerService_sendQuery this openai p q fallbackFee) of
            Inr r \<Rightarrow>
              payment_settled b p (message_content (message c)) (completion_id completion)
                fallbackFee \<and>
              result_content r = message_content (message c) \<and>
              (case result_metadata r of
                 ProcessedMetadata m isValid provider \<Rightarrow> m = model \<and> provider = p
               | FallbackMetadata m used fee provider \<Rightarrow>
                   m = model \<and> used \<and> fallbackFee = Some fee \<and> provider = p)
          | Inl e \<Rightarrow>
              \<not> payment_settled b p (message_content (message c)) (completion_id completion)
                  fallbackFee \<and>
              (\<exists>detail. e = Error (''Query failed: '' @ detail))) \<and>
         cli_sendQuery b openai p q fallbackFee =
           snd (cli_request b openai p q) @
           [ConsoleLog [Str ''\<newline>Response from AI:''],
            ConsoleLog [Val (message_content (message c))]] @
           cli_payment b p (message_content (message c)) (completion_id completion) fallbackFee \<and>
         processResponse_calls (snd (cli_request b openai p q)) = [] \<and>
         settleFee_calls (snd (cli_request b openai p q)) = []"
proof -
  note req = BrokerService_request_received[where openai = openai, OF assms(2,3,4)]
  note cli = cli_request_received[where openai = openai, OF assms(2,3,4)]
  obtain r calls where pay:
    "BrokerService_payment this b p model (message_content (message c))
       (completion_id completion) fallbackFee = (r, calls)"
    by (cases "BrokerService_payment this b p model (message_content (message c))
       (completion_id completion) fallbackFee")
  have service: "case fst (BrokerService_sendQuery this openai p q fallbackFee) of
            Inr r \<Rightarrow>
              payment_settled b p (message_content (message c)) (completion_id completion)
                fallbackFee \<and>
              result_content r = message_content (message c) \<and>
              (case result_metadata r of
                 ProcessedMetadata m isValid provider \<Rightarrow> m = model \<and> provider = p
               | FallbackMetadata m used fee provider \<Rightarrow>
                   m = model \<and> used \<and> fallbackFee = Some fee \<and> provider = p)
          | Inl e \<Rightarrow>
              \<not> payment_settled b p (message_content (message c)) (completion_id completion)
                  fallbackFee \<and>
              (\<exists>detail. e = Error (''Query failed: '' @ detail))"
    using BrokerService_payment_settled[OF assms(1), where p = p and model = model
        and content = "message_content (message c)" and chatId = "completion_id completion"
        and fallbackFee = fallbackFee]
    by (cases r)
       (auto simp add: BrokerService_sendQuery_received[OF assms(1) req assms(5)] pay)
  from service cli_sendQuery_received[OF cli(1) assms(5), of fallbackFee] cli(3) cli(4)
  show ?thesis by blast
qed

theorem content_returned_when_payment_settled_witness:
  "ensureInitialized (service_of (scenario_broker (Inl (Error ''stale fee'')) (Inr ())))
     = Inr (scenario_broker (Inl (Error ''stale fee'')) (Inr ())) \<and>
   getServiceMetadata (scenario_broker (Inl (Error ''stale fee'')) (Inr ())) ''0xAAA''
     = Inr (''https://provider.example/v1'', ''llama-3'') \<and>
   getRequestHeaders (scenario_broker (Inl (Error ''stale fee'')) (Inr ())) ''0xAAA''
       ''Hello, AI!''
     = Inr scenario_headers \<and>
   endpoint_answering (answer ''chat-1'' (Some ''Hi there'')) ''https://provider.example/v1'' ''''
       (request_body ''Hello, AI!'' ''llama-3'') (requestHeaders_of scenario_headers)
     = Inr (answer ''chat-1'' (Some ''Hi there'')) \<and>
   choices (answer ''chat-1'' (Some ''Hi there''))
     = [\<lparr>message = \<lparr>message_content = Some ''Hi there''\<rparr>\<rparr>] \<and>
   payment_settled (scenario_broker (Inl (Error ''stale fee'')) (Inr ())) ''0xAAA''
     (Some ''Hi there'') ''chat-1'' (Some (Finite (1 / 100))) \<and>
   (case fst (BrokerService_sendQuery
                (service_of (scenario_broker (Inl (Error ''stale fee'')) (Inr ())))
                (endpoint_answering (answer ''chat-1'' (Some ''Hi there''))) ''0xAAA''
                ''Hello, AI!'' (Some (Finite (1 / 100)))) of
      Inr r \<Rightarrow> result_content r = Some ''Hi there''
    | Inl e \<Rightarrow> False)"
proof (intro conjI)
  let ?b = "scenario_broker (Inl (Error ''stale fee'')) (Inr ())"
  let ?a = "answer ''chat-1'' (Some ''Hi there'')"
  show h1: "ensureInitialized (service_of ?b) = Inr ?b"
    by (rule scenario_initialized)
  show h2: "getServiceMetadata ?b ''0xAAA'' = Inr (''https://provider.example/v1'', ''llama-3'')"
    by (rule scenario_metadata)
  show h3: "getRequestHeaders ?b ''0xAAA'' ''Hello, AI!'' = Inr scenario_headers"
    by (rule scenario_headers_issued)
  show h4: "endpoint_answering ?a ''https://provider.example/v1'' ''''
              (request_body ''Hello, AI!'' ''llama-3'') (requestHeaders_of scenario_headers)
            = Inr ?a"
    by (rule scenario_answer)
  show h5: "choices ?a = [\<lparr>message = \<lparr>message_content = Some ''Hi there''\<rparr>\<rparr>]"
    by (rule scenario_choices)
  show settled: "payment_settled ?b ''0xAAA'' (Some ''Hi there'') ''chat-1''
                   (Some (Finite (1 / 100)))"
    by (simp add: payment_settled_def scenario_broker_def)
  show "case fst (BrokerService_sendQuery (service_of ?b) (endpoint_answering ?a) ''0xAAA''
                    ''Hello, AI!'' (Some (Finite (1 / 100)))) of
          Inr r \<Rightarrow> result_content r = Some ''Hi there''
        | Inl e \<Rightarrow> False"
    using content_returned_when_payment_settled
      [where openai = "endpoint_answering ?a" and fallbackFee = "Some (Finite (1 / 100))",
        OF h1 h2 h3 h4 h5] settled
    by (simp add: answer_def[of "''chat-1''"] split: sum.splits)
qed

subsection \<open>C2\<close>

text \<open>
  C2. When the automatic settlement call \<open>processResponse(providerAddress, content || "",
  chatId)\<close> returns, \<open>BrokerService.sendQuery\<close> returns a result whose payment outcome is
  \<open>Verified\<close> and whose content is the content of the inference response, and no
  \<open>settleFee\<close> call is made.
\<close>

theorem automatic_settlement_verified:
  assumes "ensureInitialized this = Inr b"
    and "getServiceMetadata b p = Inr (endpoint, model)"
    and "getRequestHeaders b p q = Inr headers"
    and "openai endpoint '''' (request_body q model) (requestHeaders_of headers) = Inr completion"
    and "choices completion = c # cs"
    and "processResponse b p (or_empty (message_content (message c))) (completion_id completion)
           = Inr isValid"
  shows "case BrokerService_sendQuery this openai p q fallbackFee of
           (Inr r, events) \<Rightarrow>
             paymentOutcome r = Verified \<and>
             result_content r = message_content (message c) \<and>
             settleFee_calls events = []
         | (Inl e, events) \<Rightarrow> False"
proof -
  note req = BrokerService_request_received[where openai = openai, OF assms(2,3,4)]
  show ?thesis
    by (simp add: BrokerService_sendQuery_received[OF assms(1) req assms(5)]
        BrokerService_payment_processed[OF assms(6)])
qed

theorem automatic_settlement_verified_witness:
  "ensureInitialized (service_of (scenario_broker (Inr True) (Inr ())))
     = Inr (scenario_broker (Inr True) (Inr ())) \<and>
   getServiceMetadata (scenario_broker (Inr True) (Inr ())) ''0xAAA''
     = Inr (''https://provider.example/v1'', ''llama-3'') \<and>
   getRequestHeaders (scenario_broker (Inr True) (Inr ())) ''0xAAA'' ''Hello, AI!''
     = Inr scenario_headers \<and>
   endpoint_answering (answer ''chat-1'' (Some ''Hi there'')) ''https://provider.example/v1'' ''''
       (request_body ''Hello, AI!'' ''llama-3'') (requestHeaders_of scenario_headers)
     = Inr (answer ''chat-1'' (Some ''Hi there'')) \<and>
   choices (answer ''chat-1'' (Some ''Hi there''))
     = [\<lparr>message = \<lparr>message_content = Some ''Hi there''\<rparr>\<rparr>] \<and>
   processResponse (scenario_broker (Inr True) (Inr ())) ''0xAAA'' (or_empty (Some ''Hi there''))
       ''chat-1'' = Inr True \<and>
   (case BrokerService_sendQuery (service_of (scenario_broker (Inr True) (Inr ())))
           (endpoint_answering (answer ''chat-1'' (Some ''Hi there''))) ''0xAAA'' ''Hello, AI!''
           None of
      (Inr r, events) \<Rightarrow>
        paymentOutcome r = Verified \<and> result_content r = Some ''Hi there'' \<and>
        settleFee_calls events = []
    | (Inl e, events) \<Rightarrow> False)"
proof (intro conjI)
  let ?b = "scenario_broker (Inr True) (Inr ())"
  let ?a = "answer ''chat-1'' (Some ''Hi there'')"
  show h1: "ensureInitialized (service_of ?b) = Inr ?b"
    by (rule scenario_initialized)
  show h2: "getServiceMetadata ?b ''0xAAA'' = Inr (''https://provider.example/v1'', ''llama-3'')"
    by (rule scenario_metadata)
  show h3: "getRequestHeaders ?b ''0xAAA'' ''Hello, AI!'' = Inr scenario_headers"
    by (rule scenario_headers_issued)
  show h4: "endpoint_answering ?a ''https://provider.example/v1'' ''''
              (request_body ''Hello, AI!'' ''llama-3'') (requestHeaders_of scenario_headers)
            = Inr ?a"
    by (rule scenario_answer)
  show h5: "choices ?a = [\<lparr>message = \<lparr>message_content = Some ''Hi there''\<rparr>\<rparr>]"
    by (rule scenario_choices)
  show "processResponse ?b ''0xAAA'' (or_empty (Some ''Hi there'')) ''chat-1'' = Inr True"
    by (simp add: scenario_broker_def)
  have h6: "processResponse ?b ''0xAAA''
              (or_empty (message_content (message \<lparr>message = \<lparr>message_content = Some ''Hi there''\<rparr>\<rparr>)))
              (completion_id ?a) = Inr True"
    by (rule scenario_verification)
  show "case BrokerService_sendQuery (service_of ?b) (endpoint_answering ?a) ''0xAAA''
               ''Hello, AI!'' None of
          (Inr r, events) \<Rightarrow>
            paymentOutcome r = Verified \<and> result_content r = Some ''Hi there'' \<and>
            settleFee_calls events = []
        | (Inl e, events) \<Rightarrow> False"
    using automatic_settlement_verified
      [where openai = "endpoint_answering ?a" and fallbackFee = None, OF h1 h2 h3 h4 h5 h6]
    by (simp split: prod.splits sum.splits)
qed

subsection \<open>C3\<close>

text \<open>
  C3. When the automatic settlement call throws and a fallback fee greater than zero was
  given, \<open>settleFee(providerAddress, fallbackFee)\<close> is called, once, by
  \<open>BrokerService.sendQuery\<close> and by the command-line program alike; when that call
  returns, the result of \<open>BrokerService.sendQuery\<close> has the payment outcome
  \<open>FallbackSettled\<close> and the content of the inference response.
\<close>

theorem fallback_fee_settled:
  assumes "ensureInitialized this = Inr b"
    and "getServiceMetadata b p = Inr (endpoint, model)"
    and "getRequestHeaders b p q = Inr headers"
    and "openai endpoint '''' (request_body q model) (requestHeaders_of headers) = Inr completion"
    and "choices completion = c # cs"
    and "processResponse b p (or_empty (message_content (message c))) (completion_id completion)
           = Inl error"
    and "gt_zero fee"
  shows "settleFee_calls (snd (BrokerService_sendQuery this openai p q (Some fee))) = [(p, fee)] \<and>
         settleFee_calls (cli_sendQuery b openai p q (Some fee)) = [(p, fee)] \<and>
         (settleFee b p fee = Inr () \<longrightarrow>
            (case fst (BrokerService_sendQuery this openai p q (Some fee)) of
               Inr r \<Rightarrow>
                 paymentOutcome r = FallbackSettled \<and>
                 result_content r = message_content (message c)
             | Inl e \<Rightarrow> False))"
proof -
  note req = BrokerService_request_received[where openai = openai, OF assms(2,3,4)]
  note cli = cli_request_received[where openai = openai, OF assms(2,3,4)]
  note run = BrokerService_sendQuery_received[OF assms(1) req assms(5)]
  note pay = BrokerService_payment_fallback[OF assms(6,7,1)]
  have service: "settleFee_calls (snd (BrokerService_sendQuery this openai p q (Some fee)))
                   = [(p, fee)]"
    by (simp add: run pay split: sum.splits)
  have program: "settleFee_calls (cli_sendQuery b openai p q (Some fee)) = [(p, fee)]"
    by (simp add: cli_sendQuery_received[OF cli(1) assms(5)] cli(4)
        cli_payment_fallback[OF assms(6,7)] cli_settleFeeManually_calls)
  have settled: "settleFee b p fee = Inr () \<longrightarrow>
            (case fst (BrokerService_sendQuery this openai p q (Some fee)) of
               Inr r \<Rightarrow>
                 paymentOutcome r = FallbackSettled \<and>
                 result_content r = message_content (message c)
             | Inl e \<Rightarrow> False)"
    by (simp add: run pay)
  from service program settled show ?thesis by blast
qed

theorem fallback_fee_settled_witness:
  "ensureInitialized (service_of (scenario_broker (Inl (Error ''stale fee'')) (Inr ())))
     = Inr (scenario_broker (Inl (Error ''stale fee'')) (Inr ())) \<and>
   getServiceMetadata (scenario_broker (Inl (Error ''stale fee'')) (Inr ())) ''0xAAA''
     = Inr (''https://provider.example/v1'', ''llama-3'') \<and>
   getRequestHeaders (scenario_broker (Inl (Error ''stale fee'')) (Inr ())) ''0xAAA''
       ''Hello, AI!''
     = Inr scenario_headers \<and>
   endpoint_answering (answer ''chat-1'' (Some ''Hi there'')) ''https://provider.example/v1'' ''''
       (request_body ''Hello, AI!'' ''llama-3'') (requestHeaders_of scenario_headers)
     = Inr (answer ''chat-1'' (Some ''Hi there'')) \<and>
   choices (answer ''chat-1'' (Some ''Hi there''))
     = [\<lparr>message = \<lparr>message_content = Some ''Hi there''\<rparr>\<rparr>] \<and>
   processResponse (scenario_broker (Inl (Error ''stale fee'')) (Inr ())) ''0xAAA''
       (or_empty (Some ''Hi there'')) ''chat-1'' = Inl (Error ''stale fee'') \<and>
   gt_zero (Finite (1 / 100)) \<and>
   settleFee (scenario_broker (Inl (Error ''stale fee'')) (Inr ())) ''0xAAA'' (Finite (1 / 100))
     = Inr () \<and>
   settleFee_calls
     (snd (BrokerService_sendQuery
             (service_of (scenario_broker (Inl (Error ''stale fee'')) (Inr ())))
             (endpoint_answering (answer ''chat-1'' (Some ''Hi there''))) ''0xAAA''
             ''Hello, AI!'' (Some (Finite (1 / 100)))))
     = [(''0xAAA'', Finite (1 / 100))] \<and>
   (case fst (BrokerService_sendQuery
                (service_of (scenario_broker (Inl (Error ''stale fee'')) (Inr ())))
                (endpoint_answering (answer ''chat-1'' (Some ''Hi there''))) ''0xAAA''
                ''Hello, AI!'' (Some (Finite (1 / 100)))) of
      Inr r \<Rightarrow> paymentOutcome r = FallbackSettled \<and> result_content r = Some ''Hi there''
    | Inl e \<Rightarrow> False)"
proof (intro conjI)
  let ?b = "scenario_broker (Inl (Error ''stale fee'')) (Inr ())"
  let ?a = "answer ''chat-1'' (Some ''Hi there'')"
  show h1: "ensureInitialized (service_of ?b) = Inr ?b"
    by (rule scenario_initialized)
  show h2: "getServiceMetadata ?b ''0xAAA'' = Inr (''https://provider.example/v1'', ''llama-3'')"
    by (rule scenario_metadata)
  show h3: "getRequestHeaders ?b ''0xAAA'' ''Hello, AI!'' = Inr scenario_headers"
    by (rule scenario_headers_issued)
  show h4: "endpoint_answering ?a ''https://provider.example/v1'' ''''
              (request_body ''Hello, AI!'' ''llama-3'') (requestHeaders_of scenario_headers)
            = Inr ?a"
    by (rule scenario_answer)
  show h5: "choices ?a = [\<lparr>message = \<lparr>message_content = Some ''Hi there''\<rparr>\<rparr>]"
    by (rule scenario_choices)
  show "processResponse ?b ''0xAAA'' (or_empty (Some ''Hi there'')) ''chat-1''
          = Inl (Error ''stale fee'')"
    by (simp add: scenario_broker_def)
  have h6: "processResponse ?b ''0xAAA''
              (or_empty (message_content (message \<lparr>message = \<lparr>message_content = Some ''Hi there''\<rparr>\<rparr>)))
              (completion_id ?a) = Inl (Error ''stale fee'')"
    by (rule scenario_verification)
  show h7: "gt_zero (Finite (1 / 100))"
    by simp
  show h8: "settleFee ?b ''0xAAA'' (Finite (1 / 100)) = Inr ()"
    by (rule scenario_settlement)
  note c = fallback_fee_settled[where openai = "endpoint_answering ?a", OF h1 h2 h3 h4 h5 h6 h7]
  show "settleFee_calls
          (snd (BrokerService_sendQuery (service_of ?b) (endpoint_answering ?a) ''0xAAA''
                  ''Hello, AI!'' (Some (Finite (1 / 100)))))
          = [(''0xAAA'', Finite (1 / 100))]"
    using c by blast
  show "case fst (BrokerService_sendQuery (service_of ?b) (endpoint_answering ?a) ''0xAAA''
                    ''Hello, AI!'' (Some (Finite (1 / 100)))) of
          Inr r \<Rightarrow> paymentOutcome r = FallbackSettled \<and> result_content r = Some ''Hi there''
        | Inl e \<Rightarrow> False"
    using c h8 by (simp split: sum.splits)
qed

subsection \<open>C4\<close>

text \<open>
  C4, as stated, fails for \<open>BrokerService.sendQuery\<close>: when the automatic settlement
  throws and no fallback fee was given, the method returns no result with an outcome
  \<open>Unsettled\<close>; it throws \<open>Query failed: Payment processing failed: ...\<close>.
\<close>

theorem unsettled_result_counterexample:
  "BrokerService_sendQuery
     (service_of (scenario_broker (Inl (Error ''stale fee'')) (Inr ())))
     (endpoint_answering (answer ''chat-1'' (Some ''Hi there''))) ''0xAAA'' ''Hello, AI!'' None
   = (Inl (Error ''Query failed: Payment processing failed: stale fee''),
      [Call (GetServiceMetadata ''0xAAA''),
       Call (GetRequestHeaders ''0xAAA'' ''Hello, AI!''),
       Call (ChatCompletionsCreate ''https://provider.example/v1'' ''''
               (request_body ''Hello, AI!'' ''llama-3'')
               [(''Address'', ''0xC11''), (''Nonce'', ''7'')]),
       Call (ProcessResponse ''0xAAA'' ''Hi there'' ''chat-1'')])"
proof -
  let ?b = "scenario_broker (Inl (Error ''stale fee'')) (Inr ())"
  let ?a = "answer ''chat-1'' (Some ''Hi there'')"
  have h1: "ensureInitialized (service_of ?b) = Inr ?b"
    by (rule scenario_initialized)
  have req: "BrokerService_request ?b (endpoint_answering ?a) ''0xAAA'' ''Hello, AI!'' =
      (Inr (''llama-3'', ?a),
       [Call (GetServiceMetadata ''0xAAA''), Call (GetRequestHeaders ''0xAAA'' ''Hello, AI!''),
        Call (ChatCompletionsCreate ''https://provider.example/v1'' ''''
                (request_body ''Hello, AI!'' ''llama-3'') (requestHeaders_of scenario_headers))])"
    by (rule BrokerService_request_received
             [where openai = "endpoint_answering ?a",
               OF scenario_metadata scenario_headers_issued scenario_answer])
  have v: "processResponse ?b ''0xAAA'' (or_empty (Some ''Hi there'')) ''chat-1''
             = Inl (Error ''stale fee'')"
    by (simp add: scenario_broker_def)
  have none: "(None :: number option) = None \<or>
              (\<exists>fee. (None :: number option) = Some fee \<and> \<not> (truthy fee \<and> gt_zero fee))"
    by simp
  show ?thesis
    by (simp add: BrokerService_sendQuery_received[OF h1 req scenario_choices]
        BrokerService_payment_no_fallback[OF v none] or_empty_def
        requestHeaders_of_scenario_headers)
qed

text \<open>
  C4 (amended). When the automatic settlement call throws and the fallback fee is absent
  or not greater than zero, \<open>settleFee\<close> is never called. \<open>BrokerService.sendQuery\<close> then
  throws \<open>Query failed: Payment processing failed: ...\<close> with the detail of the settlement
  error and returns no result; the command-line program ends with the line
  \<open>No fallback fee specified. Payment may not have been processed.\<close>
\<close>

theorem no_fallback_fee_no_settlement:
  assumes "ensureInitialized this = Inr b"
    and "getServiceMetadata b p = Inr (endpoint, model)"
    and "getRequestHeaders b p q = Inr headers"
    and "openai endpoint '''' (request_body q model) (requestHeaders_of headers) = Inr completion"
    and "choices completion = c # cs"
    and "processResponse b p (or_empty (message_content (message c))) (completion_id completion)
           = Inl error"
    and "fallbackFee = None \<or> (\<exists>fee. fallbackFee = Some fee \<and> le_zero fee)"
  shows "fst (BrokerService_sendQuery this openai p q fallbackFee)
           = Inl (Error (''Query failed: '' @ ''Payment processing failed: ''
                         @ error_message error)) \<and>
         settleFee_calls (snd (BrokerService_sendQuery this openai p q fallbackFee)) = [] \<and>
         settleFee_calls (cli_sendQuery b openai p q fallbackFee) = [] \<and>
         last (cli_sendQuery b openai p q fallbackFee)
           = ConsoleLog [Str ''No fallback fee specified. Payment may not have been processed.'']"
proof -
  note req = BrokerService_request_received[where openai = openai, OF assms(2,3,4)]
  note cli = cli_request_received[where openai = openai, OF assms(2,3,4)]
  from assms(7) have none:
    "fallbackFee = None \<or> (\<exists>fee. fallbackFee = Some fee \<and> \<not> (truthy fee \<and> gt_zero fee))"
    by (auto dest: le_zero_not_gt_zero)
  have service: "BrokerService_sendQuery this openai p q fallbackFee =
      (Inl (Error (''Query failed: '' @ ''Payment processing failed: '' @ error_message error)),
       [Call (GetServiceMetadata p), Call (GetRequestHeaders p q),
        Call (ChatCompletionsCreate endpoint '''' (request_body q model)
                (requestHeaders_of headers)),
        Call (ProcessResponse p (or_empty (message_content (message c)))
                (completion_id completion))])"
    by (simp add: BrokerService_sendQuery_received[OF assms(1) req assms(5)]
        BrokerService_payment_no_fallback[OF assms(6) none])
  have program: "cli_sendQuery b openai p q fallbackFee =
      snd (cli_request b openai p q) @
      [ConsoleLog [Str ''\<newline>Response from AI:''],
       ConsoleLog [Val (message_content (message c))],
       ConsoleLog [Str ''\<newline>Processing response payment...''],
       Call (ProcessResponse p (or_empty (message_content (message c)))
               (completion_id completion)),
       ConsoleLog [Str ''Error processing response:'', Str (error_message error)],
       ConsoleLog [Str ''No fallback fee specified. Payment may not have been processed.'']]"
    by (simp add: cli_sendQuery_received[OF cli(1) assms(5)]
        cli_payment_no_fallback[OF assms(6) none])
  show ?thesis
    by (simp add: service program cli(4))
qed

theorem no_fallback_fee_no_settlement_witness:
  "ensureInitialized (service_of (scenario_broker (Inl (Error ''stale fee'')) (Inr ())))
     = Inr (scenario_broker (Inl (Error ''stale fee'')) (Inr ())) \<and>
   getServiceMetadata (scenario_broker (Inl (Error ''stale fee'')) (Inr ())) ''0xAAA''
     = Inr (''https://provider.example/v1'', ''llama-3'') \<and>
   getRequestHeaders (scenario_broker (Inl (Error ''stale fee'')) (Inr ())) ''0xAAA''
       ''Hello, AI!''
     = Inr scenario_headers \<and>
   endpoint_answering (answer ''chat-1'' (Some ''Hi there'')) ''https://provider.example/v1'' ''''
       (request_body ''Hello, AI!'' ''llama-3'') (requestHeaders_of scenario_headers)
     = Inr (answer ''chat-1'' (Some ''Hi there'')) \<and>
   choices (answer ''chat-1'' (Some ''Hi there''))
     = [\<lparr>message = \<lparr>message_content = Some ''Hi there''\<rparr>\<rparr>] \<and>
   processResponse (scenario_broker (Inl (Error ''stale fee'')) (Inr ())) ''0xAAA''
       (or_empty (Some ''Hi there'')) ''chat-1'' = Inl (Error ''stale fee'') \<and>
   le_zero (Finite 0) \<and>
   fst (BrokerService_sendQuery
          (service_of (scenario_broker (Inl (Error ''stale fee'')) (Inr ())))
          (endpoint_answering (answer ''chat-1'' (Some ''Hi there''))) ''0xAAA'' ''Hello, AI!''
          (Some (Finite 0)))
     = Inl (Error ''Query failed: Payment processing failed: stale fee'') \<and>
   settleFee_calls
     (snd (BrokerService_sendQuery
             (service_of (scenario_broker (Inl (Error ''stale fee'')) (Inr ())))
             (endpoint_answering (answer ''chat-1'' (Some ''Hi there''))) ''0xAAA''
             ''Hello, AI!'' (Some (Finite 0))))
     = [] \<and>
   settleFee_calls
     (cli_sendQuery (scenario_broker (Inl (Error ''stale fee'')) (Inr ()))
        (endpoint_answering (answer ''chat-1'' (Some ''Hi there''))) ''0xAAA'' ''Hello, AI!''
        (Some (Finite 0)))
     = []"
proof (intro conjI)
  let ?b = "scenario_broker (Inl (Error ''stale fee'')) (Inr ())"
  let ?a = "answer ''chat-1'' (Some ''Hi there'')"
  show h1: "ensureInitialized (service_of ?b) = Inr ?b"
    by (rule scenario_initialized)
  show h2: "getServiceMetadata ?b ''0xAAA'' = Inr (''https://provider.example/v1'', ''llama-3'')"
    by (rule scenario_metadata)
  show h3: "getRequestHeaders ?b ''0xAAA'' ''Hello, AI!'' = Inr scenario_headers"
    by (rule scenario_headers_issued)
  show h4: "endpoint_answering ?a ''https://provider.example/v1'' ''''
              (request_body ''Hello, AI!'' ''llama-3'') (requestHeaders_of scenario_headers)
            = Inr ?a"
    by (rule scenario_answer)
  show h5: "choices ?a = [\<lparr>message = \<lparr>message_content = Some ''Hi there''\<rparr>\<rparr>]"
    by (rule scenario_choices)
  show "processResponse ?b ''0xAAA'' (or_empty (Some ''Hi there'')) ''chat-1''
          = Inl (Error ''stale fee'')"
    by (simp add: scenario_broker_def)
  have h6: "processResponse ?b ''0xAAA''
              (or_empty (message_content (message \<lparr>message = \<lparr>message_content = Some ''Hi there''\<rparr>\<rparr>)))
              (completion_id ?a) = Inl (Error ''stale fee'')"
    by (rule scenario_verification)
  show z: "le_zero (Finite 0)"
    by simp
  then have h7: "Some (Finite 0) = None \<or> (\<exists>fee. Some (Finite 0) = Some fee \<and> le_zero fee)"
    by simp
  note c = no_fallback_fee_no_settlement
    [where openai = "endpoint_answering ?a", OF h1 h2 h3 h4 h5 h6 h7]
  show "fst (BrokerService_sendQuery (service_of ?b) (endpoint_answering ?a) ''0xAAA''
               ''Hello, AI!'' (Some (Finite 0)))
          = Inl (Error ''Query failed: Payment processing failed: stale fee'')"
    using c by simp
  show "settleFee_calls
          (snd (BrokerService_sendQuery (service_of ?b) (endpoint_answering ?a) ''0xAAA''
                  ''Hello, AI!'' (Some (Finite 0))))
          = []"
    using c by blast
  show "settleFee_calls
          (cli_sendQuery ?b (endpoint_answering ?a) ''0xAAA'' ''Hello, AI!'' (Some (Finite 0)))
          = []"
    using c by blast
qed

subsection \<open>C5\<close>

text \<open>
  C5, as stated, fails: the code has no test of the correlation id. With an empty
  \<open>completion.id\<close> the automatic settlement call is made, with the empty id.
\<close>

theorem empty_correlation_id_counterexample:
  "processResponse_calls
     (snd (BrokerService_sendQuery (service_of (scenario_broker (Inr True) (Inr ())))
             (endpoint_answering (answer '''' (Some ''Hi there''))) ''0xAAA'' ''Hello, AI!''
             None))
     = [(''0xAAA'', ''Hi there'', '''')] \<and>
   processResponse_calls
     (cli_sendQuery (scenario_broker (Inr True) (Inr ()))
        (endpoint_answering (answer '''' (Some ''Hi there''))) ''0xAAA'' ''Hello, AI!'' None)
     = [(''0xAAA'', ''Hi there'', '''')]"
proof -
  let ?b = "scenario_broker (Inr True) (Inr ())"
  let ?a = "answer '''' (Some ''Hi there'')"
  have service: "processResponse_calls
     (snd (BrokerService_sendQuery (service_of ?b) (endpoint_answering ?a) ''0xAAA''
             ''Hello, AI!'' None))
     = [(''0xAAA'', ''Hi there'', '''')]"
    using received_verification_calls
      [where openai = "endpoint_answering ?a" and fallbackFee = None,
        OF scenario_initialized[of ?b] scenario_metadata scenario_headers_issued
          scenario_answer scenario_choices]
    by (simp add: or_empty_def answer_def)
  have program: "processResponse_calls
     (cli_sendQuery ?b (endpoint_answering ?a) ''0xAAA'' ''Hello, AI!'' None)
     = [(''0xAAA'', ''Hi there'', '''')]"
    using cli_received_verification_calls
      [where openai = "endpoint_answering ?a" and fallbackFee = None and b = ?b,
        OF scenario_metadata scenario_headers_issued scenario_answer scenario_choices]
    by (simp add: or_empty_def answer_def)
  from service program show ?thesis by blast
qed

text \<open>
  C5 (amended). For every query whose inference response has been received, whatever
  its correlation id, the empty string included, the automatic settlement call
  \<open>processResponse(providerAddress, content || "", chatId)\<close> is made, once, with the id as
  received; it is never skipped. \<open>settleFee\<close> is called only after that call has thrown.
\<close>

theorem settlement_attempted_for_every_correlation_id:
  assumes "ensureInitialized this = Inr b"
    and "getServiceMetadata b p = Inr (endpoint, model)"
    and "getRequestHeaders b p q = Inr headers"
    and "openai endpoint '''' (request_body q model) (requestHeaders_of headers) = Inr completion"
    and "choices completion = c # cs"
  shows "processResponse_calls (snd (BrokerService_sendQuery this openai p q fallbackFee))
           = [(p, or_empty (message_content (message c)), completion_id completion)] \<and>
         processResponse_calls (cli_sendQuery b openai p q fallbackFee)
           = [(p, or_empty (message_content (message c)), completion_id completion)] \<and>
         (settleFee_calls (snd (BrokerService_sendQuery this openai p q fallbackFee)) \<noteq> [] \<longrightarrow>
            isl (processResponse b p (or_empty (message_content (message c)))
                   (completion_id completion))) \<and>
         (settleFee_calls (cli_sendQuery b openai p q fallbackFee) \<noteq> [] \<longrightarrow>
            isl (processResponse b p (or_empty (message_content (message c)))
                   (completion_id completion)))"
proof -
  note req = BrokerService_request_received[where openai = openai, OF assms(2,3,4)]
  note cli = cli_request_received[where openai = openai, OF assms(2,3,4)]
  have service: "processResponse_calls (snd (BrokerService_sendQuery this openai p q fallbackFee))
           = [(p, or_empty (message_content (message c)), completion_id completion)]"
    by (rule received_verification_calls[where openai = openai, OF assms])
  have program: "processResponse_calls (cli_sendQuery b openai p q fallbackFee)
           = [(p, or_empty (message_content (message c)), completion_id completion)]"
    by (rule cli_received_verification_calls[where openai = openai, OF assms(2,3,4,5)])
  have after: "settleFee_calls (snd (BrokerService_sendQuery this openai p q fallbackFee)) = []
             \<and> settleFee_calls (cli_sendQuery b openai p q fallbackFee) = []"
    if "\<not> isl (processResponse b p (or_empty (message_content (message c)))
                   (completion_id completion))"
  proof -
    from that obtain isValid where v:
      "processResponse b p (or_empty (message_content (message c))) (completion_id completion)
         = Inr isValid"
      by (cases "processResponse b p (or_empty (message_content (message c)))
                   (completion_id completion)") auto
    show ?thesis
      by (simp add: BrokerService_sendQuery_received[OF assms(1) req assms(5)]
          BrokerService_payment_processed[OF v]
          cli_sendQuery_received[OF cli(1) assms(5)] cli_payment_processed[OF v] cli(4))
  qed
  from service program after show ?thesis by blast
qed

theorem settlement_attempted_for_every_correlation_id_witness:
  "ensureInitialized (service_of (scenario_broker (Inr True) (Inr ())))
     = Inr (scenario_broker (Inr True) (Inr ())) \<and>
   getServiceMetadata (scenario_broker (Inr True) (Inr ())) ''0xAAA''
     = Inr (''https://provider.example/v1'', ''llama-3'') \<and>
   getRequestHeaders (scenario_broker (Inr True) (Inr ())) ''0xAAA'' ''Hello, AI!''
     = Inr scenario_headers \<and>
   endpoint_answering (answer '''' (Some ''Hi there'')) ''https://provider.example/v1'' ''''
       (request_body ''Hello, AI!'' ''llama-3'') (requestHeaders_of scenario_headers)
     = Inr (answer '''' (Some ''Hi there'')) \<and>
   choices (answer '''' (Some ''Hi there''))
     = [\<lparr>message = \<lparr>message_content = Some ''Hi there''\<rparr>\<rparr>] \<and>
   processResponse_calls
     (snd (BrokerService_sendQuery (service_of (scenario_broker (Inr True) (Inr ())))
             (endpoint_answering (answer '''' (Some ''Hi there''))) ''0xAAA'' ''Hello, AI!''
             (Some (Finite (1 / 100)))))
     = [(''0xAAA'', ''Hi there'', '''')] \<and>
   settleFee_calls
     (snd (BrokerService_sendQuery (service_of (scenario_broker (Inr True) (Inr ())))
             (endpoint_answering (answer '''' (Some ''Hi there''))) ''0xAAA'' ''Hello, AI!''
             (Some (Finite (1 / 100)))))
     = []"
proof (intro conjI)
  let ?b = "scenario_broker (Inr True) (Inr ())"
  let ?a = "answer '''' (Some ''Hi there'')"
  show h1: "ensureInitialized (service_of ?b) = Inr ?b"
    by (rule scenario_initialized)
  show h2: "getServiceMetadata ?b ''0xAAA'' = Inr (''https://provider.example/v1'', ''llama-3'')"
    by (rule scenario_metadata)
  show h3: "getRequestHeaders ?b ''0xAAA'' ''Hello, AI!'' = Inr scenario_headers"
    by (rule scenario_headers_issued)
  show h4: "endpoint_answering ?a ''https://provider.example/v1'' ''''
              (request_body ''Hello, AI!'' ''llama-3'') (requestHeaders_of scenario_headers)
            = Inr ?a"
    by (rule scenario_answer)
  show h5: "choices ?a = [\<lparr>message = \<lparr>message_content = Some ''Hi there''\<rparr>\<rparr>]"
    by (rule scenario_choices)
  note c = settlement_attempted_for_every_correlation_id
    [where openai = "endpoint_answering ?a" and fallbackFee = "Some (Finite (1 / 100))",
      OF h1 h2 h3 h4 h5]
  show "processResponse_calls
          (snd (BrokerService_sendQuery (service_of ?b) (endpoint_answering ?a) ''0xAAA''
                  ''Hello, AI!'' (Some (Finite (1 / 100)))))
          = [(''0xAAA'', ''Hi there'', '''')]"
    using c by (simp add: or_empty_def answer_def)
  have v: "\<not> isl (processResponse ?b ''0xAAA''
             (or_empty (message_content (message \<lparr>message = \<lparr>message_content = Some ''Hi there''\<rparr>\<rparr>)))
             (completion_id ?a))"
    by (simp add: scenario_broker_def)
  show "settleFee_calls
          (snd (BrokerService_sendQuery (service_of ?b) (endpoint_answering ?a) ''0xAAA''
                  ''Hello, AI!'' (Some (Finite (1 / 100)))))
          = []"
    using c v by blast
qed

subsection \<open>C6\<close>

text \<open>
  C6, as stated, fails for \<open>BrokerService.depositFunds\<close>: the method does not test the
  amount and calls \<open>broker.ledger.depositFund(0)\<close>.
\<close>

theorem deposit_zero_counterexample:
  "BrokerService_depositFunds (service_of (scenario_broker (Inr True) (Inr ()))) (Finite 0)
     = (Inr ''Deposit successful'', [Call (DepositFund (Finite 0))])"
  by (simp add: BrokerService_depositFunds_def scenario_initialized scenario_broker_def)

text \<open>
  C6 (amended). The amount is tested by the caller, not by the deposit function. In the
  command-line program, \<open>main\<close> prints \<open>Invalid deposit amount\<close> and makes no broker call
  when the parsed amount is \<open>NaN\<close> or not greater than zero. \<open>BrokerService.depositFunds\<close>
  itself, on an initialized service, calls \<open>broker.ledger.depositFund(amount)\<close> for every
  amount.
\<close>

theorem deposit_amount_tested_by_main:
  "(isNaN amount \<or> le_zero amount \<longrightarrow>
      main_depositFee b amount = [ConsoleError [Str ''Invalid deposit amount'']]) \<and>
   (ensureInitialized this = Inr b \<longrightarrow>
      depositFund_calls (snd (BrokerService_depositFunds this amount)) = [amount])"
proof -
  have "main_depositFee b amount = [ConsoleError [Str ''Invalid deposit amount'']]"
    if "isNaN amount \<or> le_zero amount"
    using that by (cases amount) (simp_all add: main_depositFee_def)
  moreover have "depositFund_calls (snd (BrokerService_depositFunds this amount)) = [amount]"
    if "ensureInitialized this = Inr b"
    using that by (simp add: BrokerService_depositFunds_def split: sum.splits)
  ultimately show ?thesis by blast
qed

theorem deposit_amount_tested_by_main_witness:
  "le_zero (Finite 0) \<and>
   main_depositFee (scenario_broker (Inr True) (Inr ())) (Finite 0)
     = [ConsoleError [Str ''Invalid deposit amount'']] \<and>
   depositFund_calls (main_depositFee (scenario_broker (Inr True) (Inr ())) (Finite 0)) = [] \<and>
   ensureInitialized (service_of (scenario_broker (Inr True) (Inr ())))
     = Inr (scenario_broker (Inr True) (Inr ())) \<and>
   depositFund_calls
     (snd (BrokerService_depositFunds (service_of (scenario_broker (Inr True) (Inr ())))
             (Finite 0)))
     = [Finite 0]"
proof (intro conjI)
  let ?b = "scenario_broker (Inr True) (Inr ())"
  note c = deposit_amount_tested_by_main[of "Finite 0" ?b "service_of ?b"]
  show z: "le_zero (Finite 0)"
    by simp
  show m: "main_depositFee ?b (Finite 0) = [ConsoleError [Str ''Invalid deposit amount'']]"
    using c z by blast
  show "depositFund_calls (main_depositFee ?b (Finite 0)) = []"
    by (simp add: m)
  show h1: "ensureInitialized (service_of ?b) = Inr ?b"
    by (rule scenario_initialized)
  show "depositFund_calls (snd (BrokerService_depositFunds (service_of ?b) (Finite 0)))
          = [Finite 0]"
    using c h1 by blast
qed

subsection \<open>C7\<close>

text \<open>
  C7. For every query for which the broker returns the metadata and the headers, one
  request is sent to the resolved endpoint: its only message has the role \<open>user\<close> and
  the prompt text as content, its model is the model of the metadata, and its headers are
  the broker's headers, none added, dropped or altered. The headers are those of the
  spec's \<open>RequestHeaders\<close>, header names with string values: an object whose properties
  are strings and none of which is named \<open>__proto__\<close>. (The code copies a property only
  when \<open>typeof value === 'string'\<close>, and its assignment to a plain object creates no
  property named \<open>__proto__\<close>.)
\<close>

theorem request_as_resolved:
  assumes "ensureInitialized this = Inr b"
    and "getServiceMetadata b p = Inr (endpoint, model)"
    and "getRequestHeaders b p q = Inr (map (\<lambda>(key, s). (key, JString s)) hs)"
    and "distinct (map fst hs)"
    and "''__proto__'' \<notin> fst ` set hs"
  shows "create_calls (snd (BrokerService_sendQuery this openai p q fallbackFee)) =
           [(endpoint, '''',
             \<lparr>req_messages = [\<lparr>msg_role = ''user'', msg_content = q\<rparr>], req_model = model\<rparr>,
             hs)] \<and>
         create_calls (cli_sendQuery b openai p q fallbackFee) =
           [(endpoint, '''',
             \<lparr>req_messages = [\<lparr>msg_role = ''user'', msg_content = q\<rparr>], req_model = model\<rparr>,
             hs)]"
proof -
  have service: "create_calls (snd (BrokerService_sendQuery this openai p q fallbackFee)) =
      [(endpoint, '''', request_body q model,
        requestHeaders_of (map (\<lambda>(key, s). (key, JString s)) hs))]"
    by (simp add: BrokerService_sendQuery_create_calls[OF assms(1)]
        BrokerService_request_calls[OF assms(2,3)])
  have program: "create_calls (cli_sendQuery b openai p q fallbackFee) =
      [(endpoint, '''', request_body q model,
        requestHeaders_of (map (\<lambda>(key, s). (key, JString s)) hs))]"
    by (simp add: cli_sendQuery_create_calls cli_request_calls[OF assms(2,3)])
  show ?thesis
    by (simp add: service program requestHeaders_of_strings[OF assms(4,5)] request_body_def)
qed

theorem request_as_resolved_witness:
  "ensureInitialized (service_of (scenario_broker (Inr True) (Inr ())))
     = Inr (scenario_broker (Inr True) (Inr ())) \<and>
   getServiceMetadata (scenario_broker (Inr True) (Inr ())) ''0xAAA''
     = Inr (''https://provider.example/v1'', ''llama-3'') \<and>
   getRequestHeaders (scenario_broker (Inr True) (Inr ())) ''0xAAA'' ''Hello, AI!''
     = Inr (map (\<lambda>(key, s). (key, JString s)) [(''Address'', ''0xC11''), (''Nonce'', ''7'')]) \<and>
   distinct (map fst [(''Address'', ''0xC11''), (''Nonce'', ''7'')]) \<and>
   ''__proto__'' \<notin> fst ` set [(''Address'', ''0xC11''), (''Nonce'', ''7'')] \<and>
   create_calls
     (snd (BrokerService_sendQuery (service_of (scenario_broker (Inr True) (Inr ())))
             (endpoint_answering (answer ''chat-1'' (Some ''Hi there''))) ''0xAAA''
             ''Hello, AI!'' None)) =
     [(''https://provider.example/v1'', '''',
       \<lparr>req_messages = [\<lparr>msg_role = ''user'', msg_content = ''Hello, AI!''\<rparr>],
          req_model = ''llama-3''\<rparr>,
       [(''Address'', ''0xC11''), (''Nonce'', ''7'')])] \<and>
   create_calls
     (cli_sendQuery (scenario_broker (Inr True) (Inr ()))
        (endpoint_answering (answer ''chat-1'' (Some ''Hi there''))) ''0xAAA'' ''Hello, AI!''
        None) =
     [(''https://provider.example/v1'', '''',
       \<lparr>req_messages = [\<lparr>msg_role = ''user'', msg_content = ''Hello, AI!''\<rparr>],
          req_model = ''llama-3''\<rparr>,
       [(''Address'', ''0xC11''), (''Nonce'', ''7'')])]"
proof -
  let ?b = "scenario_broker (Inr True) (Inr ())"
  have h1: "ensureInitialized (service_of ?b) = Inr ?b"
    by (rule scenario_initialized)
  have h2: "getServiceMetadata ?b ''0xAAA'' = Inr (''https://provider.example/v1'', ''llama-3'')"
    by (rule scenario_metadata)
  have h3: "getRequestHeaders ?b ''0xAAA'' ''Hello, AI!''
              = Inr (map (\<lambda>(key, s). (key, JString s))
                       [(''Address'', ''0xC11''), (''Nonce'', ''7'')])"
    by (simp add: scenario_broker_def scenario_headers_def)
  have h4: "distinct (map fst [(''Address'', ''0xC11''), (''Nonce'', ''7'')])"
    by simp
  have h5: "''__proto__'' \<notin> fst ` set [(''Address'', ''0xC11''), (''Nonce'', ''7'')]"
    by simp
  from h1 h2 h3 h4 h5
    request_as_resolved
      [where openai = "endpoint_answering (answer ''chat-1'' (Some ''Hi there''))"
         and fallbackFee = None, OF h1 h2 h3 h4 h5]
  show ?thesis by blast
qed

subsection \<open>C8\<close>

text \<open>
  C8. When the completion has no choice, reading \<open>completion.choices[0].message.content\<close>
  throws: \<open>BrokerService.sendQuery\<close> throws \<open>Query failed: ...\<close> with the message of the
  \<open>TypeError\<close> and returns no result, not a result with absent content; no settlement
  call is made. The command-line program prints the error instead.
\<close>

theorem empty_choices_throw:
  assumes "ensureInitialized this = Inr b"
    and "getServiceMetadata b p = Inr (endpoint, model)"
    and "getRequestHeaders b p q = Inr headers"
    and "openai endpoint '''' (request_body q model) (requestHeaders_of headers) = Inr completion"
    and "choices completion = []"
  shows "BrokerService_sendQuery this openai p q fallbackFee =
           (Inl (Error (''Query failed: '' @ error_message undefined_message_TypeError)),
            [Call (GetServiceMetadata p), Call (GetRequestHeaders p q),
             Call (ChatCompletionsCreate endpoint '''' (request_body q model)
                     (requestHeaders_of headers))]) \<and>
         cli_sendQuery b openai p q fallbackFee =
           snd (cli_request b openai p q) @
           [ConsoleError [Str ''Error sending query:'',
                          Str (error_message undefined_message_TypeError)]] \<and>
         processResponse_calls (cli_sendQuery b openai p q fallbackFee) = []"
proof -
  note req = BrokerService_request_received[where openai = openai, OF assms(2,3,4)]
  note cli = cli_request_received[where openai = openai, OF assms(2,3,4)]
  have service: "BrokerService_sendQuery this openai p q fallbackFee =
           (Inl (Error (''Query failed: '' @ error_message undefined_message_TypeError)),
            [Call (GetServiceMetadata p), Call (GetRequestHeaders p q),
             Call (ChatCompletionsCreate endpoint '''' (request_body q model)
                     (requestHeaders_of headers))])"
    by (simp add: BrokerService_sendQuery_def BrokerService_sendQuery_try_def assms(1,5) req)
  have program: "cli_sendQuery b openai p q fallbackFee =
           snd (cli_request b openai p q) @
           [ConsoleError [Str ''Error sending query:'',
                          Str (error_message undefined_message_TypeError)]]"
    using cli(1) assms(5)
    by (cases "cli_request b openai p q")
       (simp add: cli_sendQuery_def cli_sendQuery_try_def undefined_message_TypeError_def
          Error_def)
  have "processResponse_calls (cli_sendQuery b openai p q fallbackFee) = []"
    by (simp add: program cli(3))
  with service program show ?thesis by blast
qed

theorem empty_choices_throw_witness:
  "ensureInitialized (service_of (scenario_broker (Inr True) (Inr ())))
     = Inr (scenario_broker (Inr True) (Inr ())) \<and>
   getServiceMetadata (scenario_broker (Inr True) (Inr ())) ''0xAAA''
     = Inr (''https://provider.example/v1'', ''llama-3'') \<and>
   getRequestHeaders (scenario_broker (Inr True) (Inr ())) ''0xAAA'' ''Hello, AI!''
     = Inr scenario_headers \<and>
   endpoint_answering \<lparr>completion_id = ''chat-1'', choices = []\<rparr>
       ''https://provider.example/v1'' ''''
       (request_body ''Hello, AI!'' ''llama-3'') (requestHeaders_of scenario_headers)
     = Inr \<lparr>completion_id = ''chat-1'', choices = []\<rparr> \<and>
   choices \<lparr>completion_id = ''chat-1'', choices = []\<rparr> = [] \<and>
   fst (BrokerService_sendQuery (service_of (scenario_broker (Inr True) (Inr ())))
          (endpoint_answering \<lparr>completion_id = ''chat-1'', choices = []\<rparr>) ''0xAAA''
          ''Hello, AI!'' None)
     = Inl (Error (''Query failed: '' @ error_message undefined_message_TypeError))"
proof (intro conjI)
  let ?b = "scenario_broker (Inr True) (Inr ())"
  let ?a = "\<lparr>completion_id = ''chat-1'', choices = []\<rparr>"
  show h1: "ensureInitialized (service_of ?b) = Inr ?b"
    by (rule scenario_initialized)
  show h2: "getServiceMetadata ?b ''0xAAA'' = Inr (''https://provider.example/v1'', ''llama-3'')"
    by (rule scenario_metadata)
  show h3: "getRequestHeaders ?b ''0xAAA'' ''Hello, AI!'' = Inr scenario_headers"
    by (rule scenario_headers_issued)
  show h4: "endpoint_answering ?a ''https://provider.example/v1'' ''''
              (request_body ''Hello, AI!'' ''llama-3'') (requestHeaders_of scenario_headers)
            = Inr ?a"
    by (rule scenario_answer)
  show h5: "choices ?a = []"
    by simp
  show "fst (BrokerService_sendQuery (service_of ?b) (endpoint_answering ?a) ''0xAAA''
               ''Hello, AI!'' None)
          = Inl (Error (''Query failed: '' @ error_message undefined_message_TypeError))"
    using empty_choices_throw
      [where openai = "endpoint_answering ?a" and fallbackFee = None, OF h1 h2 h3 h4 h5]
    by simp
qed

subsection \<open>C9\<close>

text \<open>
  C9. When \<open>processResponse\<close> returns \<open>false\<close> without throwing,
  \<open>BrokerService.sendQuery\<close> still returns a result with the content: the value is reported
  as the flag \<open>isValid\<close> of the metadata and no \<open>settleFee\<close> call is made. The
  command-line program prints \<open>Response validity: Invalid\<close> and makes no \<open>settleFee\<close> call
  either.
\<close>

theorem invalid_response_reported_as_flag:
  assumes "ensureInitialized this = Inr b"
    and "getServiceMetadata b p = Inr (endpoint, model)"
    and "getRequestHeaders b p q = Inr headers"
    and "openai endpoint '''' (request_body q model) (requestHeaders_of headers) = Inr completion"
    and "choices completion = c # cs"
    and "processResponse b p (or_empty (message_content (message c))) (completion_id completion)
           = Inr False"
  shows "(case BrokerService_sendQuery this openai p q fallbackFee of
            (Inr r, events) \<Rightarrow>
              result_content r = message_content (message c) \<and>
              result_metadata r = ProcessedMetadata model False p \<and>
              settleFee_calls events = []
          | (Inl e, events) \<Rightarrow> False) \<and>
         settleFee_calls (cli_sendQuery b openai p q fallbackFee) = [] \<and>
         last (cli_sendQuery b openai p q fallbackFee)
           = ConsoleLog [Str ''Response validity: Invalid'']"
proof -
  note req = BrokerService_request_received[where openai = openai, OF assms(2,3,4)]
  note cli = cli_request_received[where openai = openai, OF assms(2,3,4)]
  have service: "BrokerService_sendQuery this openai p q fallbackFee =
      (Inr \<lparr>result_content = message_content (message c),
            result_metadata = ProcessedMetadata model False p\<rparr>,
       [Call (GetServiceMetadata p), Call (GetRequestHeaders p q),
        Call (ChatCompletionsCreate endpoint '''' (request_body q model)
                (requestHeaders_of headers)),
        Call (ProcessResponse p (or_empty (message_content (message c)))
                (completion_id completion))])"
    by (simp add: BrokerService_sendQuery_received[OF assms(1) req assms(5)]
        BrokerService_payment_processed[OF assms(6)])
  have program: "cli_sendQuery b openai p q fallbackFee =
      snd (cli_request b openai p q) @
      [ConsoleLog [Str ''\<newline>Response from AI:''],
       ConsoleLog [Val (message_content (message c))],
       ConsoleLog [Str ''\<newline>Processing response payment...''],
       Call (ProcessResponse p (or_empty (message_content (message c)))
               (completion_id completion)),
       ConsoleLog [Str ''Response validity: Invalid'']]"
    by (simp add: cli_sendQuery_received[OF cli(1) assms(5)]
        cli_payment_processed[OF assms(6)])
  show ?thesis
    by (simp add: service program cli(4))
qed

theorem invalid_response_reported_as_flag_witness:
  "ensureInitialized (service_of (scenario_broker (Inr False) (Inr ())))
     = Inr (scenario_broker (Inr False) (Inr ())) \<and>
   getServiceMetadata (scenario_broker (Inr False) (Inr ())) ''0xAAA''
     = Inr (''https://provider.example/v1'', ''llama-3'') \<and>
   getRequestHeaders (scenario_broker (Inr False) (Inr ())) ''0xAAA'' ''Hello, AI!''
     = Inr scenario_headers \<and>
   endpoint_answering (answer ''chat-1'' (Some ''Hi there'')) ''https://provider.example/v1'' ''''
       (request_body ''Hello, AI!'' ''llama-3'') (requestHeaders_of scenario_headers)
     = Inr (answer ''chat-1'' (Some ''Hi there'')) \<and>
   choices (answer ''chat-1'' (Some ''Hi there''))
     = [\<lparr>message = \<lparr>message_content = Some ''Hi there''\<rparr>\<rparr>] \<and>
   processResponse (scenario_broker (Inr False) (Inr ())) ''0xAAA''
       (or_empty (Some ''Hi there'')) ''chat-1'' = Inr False \<and>
   (case BrokerService_sendQuery (service_of (scenario_broker (Inr False) (Inr ())))
           (endpoint_answering (answer ''chat-1'' (Some ''Hi there''))) ''0xAAA'' ''Hello, AI!''
           (Some (Finite (1 / 100))) of
      (Inr r, events) \<Rightarrow>
        result_content r = Some ''Hi there'' \<and>
        result_metadata r = ProcessedMetadata ''llama-3'' False ''0xAAA'' \<and>
        settleFee_calls events = []
    | (Inl e, events) \<Rightarrow> False)"
proof (intro conjI)
  let ?b = "scenario_broker (Inr False) (Inr ())"
  let ?a = "answer ''chat-1'' (Some ''Hi there'')"
  show h1: "ensureInitialized (service_of ?b) = Inr ?b"
    by (rule scenario_initialized)
  show h2: "getServiceMetadata ?b ''0xAAA'' = Inr (''https://provider.example/v1'', ''llama-3'')"
    by (rule scenario_metadata)
  show h3: "getRequestHeaders ?b ''0xAAA'' ''Hello, AI!'' = Inr scenario_headers"
    by (rule scenario_headers_issued)
  show h4: "endpoint_answering ?a ''https://provider.example/v1'' ''''
              (request_body ''Hello, AI!'' ''llama-3'') (requestHeaders_of scenario_headers)
            = Inr ?a"
    by (rule scenario_answer)
  show h5: "choices ?a = [\<lparr>message = \<lparr>message_content = Some ''Hi there''\<rparr>\<rparr>]"
    by (rule scenario_choices)
  show "processResponse ?b ''0xAAA'' (or_empty (Some ''Hi there'')) ''chat-1'' = Inr False"
    by (simp add: scenario_broker_def)
  have h6: "processResponse ?b ''0xAAA''
              (or_empty (message_content (message \<lparr>message = \<lparr>message_content = Some ''Hi there''\<rparr>\<rparr>)))
              (completion_id ?a) = Inr False"
    by (rule scenario_verification)
  show "case BrokerService_sendQuery (service_of ?b) (endpoint_answering ?a) ''0xAAA''
               ''Hello, AI!'' (Some (Finite (1 / 100))) of
          (Inr r, events) \<Rightarrow>
            result_content r = Some ''Hi there'' \<and>
            result_metadata r = ProcessedMetadata ''llama-3'' False ''0xAAA'' \<and>
            settleFee_calls events = []
        | (Inl e, events) \<Rightarrow> False"
    using invalid_response_reported_as_flag
      [where openai = "endpoint_answering ?a" and fallbackFee = "Some (Finite (1 / 100))",
        OF h1 h2 h3 h4 h5 h6]
    by (simp split: prod.splits sum.splits)
qed

subsection \<open>C10\<close>

text \<open>
  C10. When the content of the inference response is absent (\<open>null\<close>), the automatic
  settlement call receives the empty string in its place, in \<open>BrokerService.sendQuery\<close>
  and in the command-line program, while every result that \<open>BrokerService.sendQuery\<close>
  returns keeps the absent content.
\<close>

theorem absent_content_settled_as_empty_string:
  assumes "ensureInitialized this = Inr b"
    and "getServiceMetadata b p = Inr (endpoint, model)"
    and "getRequestHeaders b p q = Inr headers"
    and "openai endpoint '''' (request_body q model) (requestHeaders_of headers) = Inr completion"
    and "choices completion = c # cs"
    and "message_content (message c) = None"
  shows "processResponse_calls (snd (BrokerService_sendQuery this openai p q fallbackFee))
           = [(p, '''', completion_id completion)] \<and>
         processResponse_calls (cli_sendQuery b openai p q fallbackFee)
           = [(p, '''', completion_id completion)] \<and>
         (\<forall>r. fst (BrokerService_sendQuery this openai p q fallbackFee) = Inr r \<longrightarrow>
              result_content r = None)"
proof -
  have empty: "or_empty (message_content (message c)) = ''''"
    by (simp add: assms(6) or_empty_def)
  have service: "processResponse_calls (snd (BrokerService_sendQuery this openai p q fallbackFee))
                   = [(p, '''', completion_id completion)]"
    using received_verification_calls[where openai = openai, OF assms(1,2,3,4,5)]
    by (simp add: empty)
  have program: "processResponse_calls (cli_sendQuery b openai p q fallbackFee)
                   = [(p, '''', completion_id completion)]"
    using cli_received_verification_calls[where openai = openai, OF assms(2,3,4,5)]
    by (simp add: empty)
  have kept: "\<forall>r. fst (BrokerService_sendQuery this openai p q fallbackFee) = Inr r \<longrightarrow>
                result_content r = None"
    using received_result_content[where openai = openai, OF assms(1,2,3,4,5)]
    by (simp add: assms(6))
  from service program kept show ?thesis by blast
qed

theorem absent_content_settled_as_empty_string_witness:
  "ensureInitialized (service_of (scenario_broker (Inr True) (Inr ())))
     = Inr (scenario_broker (Inr True) (Inr ())) \<and>
   getServiceMetadata (scenario_broker (Inr True) (Inr ())) ''0xAAA''
     = Inr (''https://provider.example/v1'', ''llama-3'') \<and>
   getRequestHeaders (scenario_broker (Inr True) (Inr ())) ''0xAAA'' ''Hello, AI!''
     = Inr scenario_headers \<and>
   endpoint_answering (answer ''chat-1'' None) ''https://provider.example/v1'' ''''
       (request_body ''Hello, AI!'' ''llama-3'') (requestHeaders_of scenario_headers)
     = Inr (answer ''chat-1'' None) \<and>
   choices (answer ''chat-1'' None) = [\<lparr>message = \<lparr>message_content = None\<rparr>\<rparr>] \<and>
   message_content (message \<lparr>message = \<lparr>message_content = None\<rparr>\<rparr>) = None \<and>
   processResponse_calls
     (snd (BrokerService_sendQuery (service_of (scenario_broker (Inr True) (Inr ())))
             (endpoint_answering (answer ''chat-1'' None)) ''0xAAA'' ''Hello, AI!'' None))
     = [(''0xAAA'', '''', ''chat-1'')] \<and>
   fst (BrokerService_sendQuery (service_of (scenario_broker (Inr True) (Inr ())))
          (endpoint_answering (answer ''chat-1'' None)) ''0xAAA'' ''Hello, AI!'' None)
     = Inr \<lparr>result_content = None,
            result_metadata = ProcessedMetadata ''llama-3'' True ''0xAAA''\<rparr> \<and>
   result_content \<lparr>result_content = None,
            result_metadata = ProcessedMetadata ''llama-3'' True ''0xAAA''\<rparr> = None"
proof (intro conjI)
  let ?b = "scenario_broker (Inr True) (Inr ())"
  let ?a = "answer ''chat-1'' None"
  show h1: "ensureInitialized (service_of ?b) = Inr ?b"
    by (rule scenario_initialized)
  show h2: "getServiceMetadata ?b ''0xAAA'' = Inr (''https://provider.example/v1'', ''llama-3'')"
    by (rule scenario_metadata)
  show h3: "getRequestHeaders ?b ''0xAAA'' ''Hello, AI!'' = Inr scenario_headers"
    by (rule scenario_headers_issued)
  show h4: "endpoint_answering ?a ''https://provider.example/v1'' ''''
              (request_body ''Hello, AI!'' ''llama-3'') (requestHeaders_of scenario_headers)
            = Inr ?a"
    by (rule scenario_answer)
  show h5: "choices ?a = [\<lparr>message = \<lparr>message_content = None\<rparr>\<rparr>]"
    by (rule scenario_choices)
  show h6: "message_content (message \<lparr>message = \<lparr>message_content = None\<rparr>\<rparr>) = None"
    by simp
  note c = absent_content_settled_as_empty_string
    [where openai = "endpoint_answering ?a" and fallbackFee = None, OF h1 h2 h3 h4 h5 h6]
  show "processResponse_calls
          (snd (BrokerService_sendQuery (service_of ?b) (endpoint_answering ?a) ''0xAAA''
                  ''Hello, AI!'' None))
          = [(''0xAAA'', '''', ''chat-1'')]"
    using c by (simp add: answer_def)
  have v: "processResponse ?b ''0xAAA'' (or_empty None) ''chat-1'' = Inr True"
    by (simp add: scenario_broker_def)
  show "fst (BrokerService_sendQuery (service_of ?b) (endpoint_answering ?a) ''0xAAA''
               ''Hello, AI!'' None)
          = Inr \<lparr>result_content = None,
                 result_metadata = ProcessedMetadata ''llama-3'' True ''0xAAA''\<rparr>"
    by (simp add: BrokerService_sendQuery_received
          [OF h1 BrokerService_request_received
                   [where openai = "endpoint_answering ?a", OF h2 h3 h4] h5]
        BrokerService_payment_processed[OF v])
  show "result_content \<lparr>result_content = None,
            result_metadata = ProcessedMetadata ''llama-3'' True ''0xAAA''\<rparr> = None"
    by simp
qed

end
